theory Spec2Isabelle
  imports Complex_Main "HOL-Library.Log_Nat"
begin

section \<open>Python values used by the two setrun modules\<close>

subsection \<open>Floats\<close>

text \<open>
  A finite Python float is modelled by the real number it denotes, and every float
  operation by the exact operation followed by \<open>binary64\<close>, the IEEE 754 rounding to
  the nearest double (53 significant bits, ties to even, gradual underflow below
  \<open>2^-1022\<close>).  Overflow to infinity is not modelled: no value of the two modules comes
  near \<open>2^1024\<close>.  A decimal literal of the source that is not an integer is written
  \<open>binary64 d\<close>, the double the Python parser produces for it; integer-valued literals
  below \<open>2^53\<close> are doubles already and are written as they are.
\<close>

definition pow2 :: "int \<Rightarrow> real" where
  "pow2 e = (if 0 \<le> e then 2 ^ nat e else 1 / 2 ^ nat (- e))"

text \<open>The binary exponent \<open>e\<close> of a nonzero real: \<open>2^e \<le> |x| < 2^(e+1)\<close>.\<close>

definition fexp :: "real \<Rightarrow> int" where
  "fexp x = (let a = \<bar>x\<bar> in
     if 1 \<le> a then bitlen \<lfloor>a\<rfloor> - 1
     else (let k = bitlen \<lfloor>1 / a\<rfloor> - 1 in if a * 2 ^ nat k = 1 then - k else - k - 1))"

definition round_half_even :: "real \<Rightarrow> int" where
  "round_half_even q = (let f = \<lfloor>q\<rfloor>; r = q - of_int f in
     if r < 1/2 then f else if 1/2 < r then f + 1 else if even f then f else f + 1)"

definition binary64 :: "real \<Rightarrow> real" where
  "binary64 x = (if x = 0 then 0 else
     let e = max (fexp x) (- 1022) in
     of_int (round_half_even (x * pow2 (52 - e))) * pow2 (e - 52))"

definition fadd :: "real \<Rightarrow> real \<Rightarrow> real" where
  "fadd x y = binary64 (x + y)"

definition fsub :: "real \<Rightarrow> real \<Rightarrow> real" where
  "fsub x y = binary64 (x - y)"

definition fmul :: "real \<Rightarrow> real \<Rightarrow> real" where
  "fmul x y = binary64 (x * y)"

definition fdiv :: "real \<Rightarrow> real \<Rightarrow> real" where
  "fdiv x y = binary64 (x / y)"

text \<open>\<open>x ** n\<close> for a float \<open>x\<close> and a small literal \<open>n\<close>.\<close>

definition fpow :: "real \<Rightarrow> nat \<Rightarrow> real" where
  "fpow x n = binary64 (x ^ n)"

text \<open>The conversion Python applies to an int operand of a float operation.\<close>

definition float_of_int :: "int \<Rightarrow> real" where
  "float_of_int i = binary64 (of_int i)"

text \<open>A float that may be \<open>np.infty\<close> or \<open>-np.infty\<close> (the depth brackets of a friction region).\<close>

datatype pyfloat = PosInf | Finite real | NegInf

fun pyfloat_less :: "pyfloat \<Rightarrow> pyfloat \<Rightarrow> bool" where
  "pyfloat_less (Finite a) (Finite b) = (a < b)"
| "pyfloat_less NegInf PosInf = True"
| "pyfloat_less NegInf (Finite b) = True"
| "pyfloat_less (Finite a) PosInf = True"
| "pyfloat_less _ _ = False"

text \<open>An attribute that holds \<open>False\<close>, one float or a list of floats, depending on the module.\<close>

datatype pyval = PyBool bool | PyFloat real | PyFloats "real list"

subsection \<open>Strings and paths\<close>

text \<open>
  \<open>str.lower()\<close>: the letters \<open>A\<close> to \<open>Z\<close> go to \<open>a\<close> to \<open>z\<close>.  Python also lowers
  letters outside ASCII, and none of them becomes a letter of \<open>'geoclaw'\<close>; the model
  leaves them alone, which makes no difference to the comparison the modules make.
\<close>

definition char_lower :: "char \<Rightarrow> char" where
  "char_lower c =
     (case map_of (zip ''ABCDEFGHIJKLMNOPQRSTUVWXYZ'' ''abcdefghijklmnopqrstuvwxyz'') c of
        None \<Rightarrow> c | Some d \<Rightarrow> d)"

definition str_lower :: "string \<Rightarrow> string" where
  "str_lower s = map char_lower s"

text \<open>\<open>os.path.join(a, b)\<close> on a POSIX system.\<close>

definition os_path_join :: "string \<Rightarrow> string \<Rightarrow> string" where
  "os_path_join a b =
     (if take 1 b = ''/'' then b
      else if a = [] \<or> last a = CHR ''/'' then a @ b
      else a @ ''/'' @ b)"

subsection \<open>Exceptions and statements\<close>

datatype pyerr = AssertionError | IndexError | AttributeError | KeyError

text \<open>
  A statement takes the object it mutates and returns the mutated object, or the exception
  it raises.  A block runs its statements in order and stops at the first exception.
\<close>

type_synonym 'a stmt = "'a \<Rightarrow> pyerr + 'a"

definition assign :: "('a \<Rightarrow> 'a) \<Rightarrow> 'a stmt" where
  "assign f s = Inr (f s)"

fun block :: "'a stmt list \<Rightarrow> 'a stmt" where
  "block [] s = Inr s"
| "block (c # cs) s = (case c s of Inl e \<Rightarrow> Inl e | Inr s' \<Rightarrow> block cs s')"

text \<open>
  \<open>xs[i]\<close> and \<open>xs[i] = v\<close> for a literal index \<open>i \<ge> 0\<close>: IndexError when \<open>xs\<close> is
  too short.
\<close>

definition getitem :: "'a list \<Rightarrow> nat \<Rightarrow> pyerr + 'a" where
  "getitem xs i = (if i < length xs then Inr (xs ! i) else Inl IndexError)"

definition setitem :: "'a list \<Rightarrow> nat \<Rightarrow> 'a \<Rightarrow> pyerr + 'a list" where
  "setitem xs i v = (if i < length xs then Inr (xs[i := v]) else Inl IndexError)"

section \<open>The run data\<close>

text \<open>
  \<open>ClawRunData\<close> and the data objects it holds belong to the Clawpack library.  The
  records below have one field for every attribute the two modules assign or read.
  The entries the modules append as positional lists are records whose fields carry the
  names the source's comments give to the positions.
\<close>

record clawdata =
  num_dim :: int
  lower :: "real list"
  upper :: "real list"
  num_cells :: "int list"
  num_eqn :: int
  num_aux :: int
  capa_index :: int
  t0 :: real
  restart :: bool
  restart_file :: string
  output_style :: int
  tfinal :: real
  num_output_times :: int
  output_t0 :: bool
  output_times :: "real list"
  output_step_interval :: int
  total_steps :: int
  output_format :: string
  output_q_components :: string
  output_aux_components :: string
  output_aux_onlyonce :: bool
  verbosity :: int
  dt_variable :: bool
  dt_initial :: real
  dt_max :: real
  cfl_desired :: real
  cfl_max :: real
  steps_max :: int
  order :: int
  dimensional_split :: string
  transverse_waves :: int
  num_waves :: int
  limiter :: "string list"
  use_fwaves :: bool
  source_split :: string
  num_ghost :: int
  bc_lower :: "string list"
  bc_upper :: "string list"
  checkpt_style :: int
  checkpt_times :: "real list"
  checkpt_interval :: int

record amrdata =
  amr_levels_max :: int
  refinement_ratios_x :: "int list"
  refinement_ratios_y :: "int list"
  refinement_ratios_t :: "int list"
  aux_type :: "string list"
  flag_richardson :: bool
  flag2refine :: bool
  regrid_interval :: int
  regrid_buffer_width :: int
  clustering_cutoff :: real
  verbosity_regrid :: int
  dprint :: bool
  eprint :: bool
  edebug :: bool
  gprint :: bool
  nprint :: bool
  pprint :: bool
  rprint :: bool
  sprint :: bool
  tprint :: bool
  uprint :: bool

text \<open>\<open>[minlevel, maxlevel, t1, t2, x1, x2, y1, y2]\<close>\<close>

record region =
  region_minlevel :: int
  region_maxlevel :: int
  region_t1 :: real
  region_t2 :: real
  region_x1 :: real
  region_x2 :: real
  region_y1 :: real
  region_y2 :: real

record regiondata =
  regions :: "region list"

text \<open>\<open>[gaugeno, x, y, t1, t2]\<close>\<close>

record gauge =
  gaugeno :: int
  gauge_x :: real
  gauge_y :: real
  gauge_t1 :: real
  gauge_t2 :: real

record gaugedata =
  gauges :: "gauge list"

record geo_data =
  gravity :: real
  coordinate_system :: int
  earth_radius :: real
  rho :: real
  rho_air :: real
  ambient_pressure :: real
  coriolis_forcing :: bool
  friction_forcing :: bool
  manning_coefficient :: real
  friction_depth :: real
  sea_level :: real
  dry_tolerance :: real

record refinement_data =
  wave_tolerance :: real
  speed_tolerance :: pyval
  deep_depth :: real
  max_level_deep :: int
  variable_dt_refinement_ratios :: bool

text \<open>\<open>[topotype, minlevel, maxlevel, t1, t2, fname]\<close>\<close>

record topofile =
  topotype :: int
  minlevel :: int
  maxlevel :: int
  t1 :: real
  t2 :: real
  fname :: string

record topo_data =
  topofiles :: "topofile list"

text \<open>\<open>[topotype, minlevel, maxlevel, fname]\<close>\<close>

record dtopo_data =
  dtopofiles :: "(int \<times> int \<times> int \<times> string) list"

record force_dry =
  force_dry_tend :: real
  force_dry_fname :: string

text \<open>\<open>qinitfiles\<close> entries are \<open>[minlev, maxlev, fname]\<close>.\<close>

record qinit_data =
  qinit_type :: int
  qinitfiles :: "(int \<times> int \<times> string) list"
  force_dry_list :: "force_dry list"

record fixed_grid_data =
  fixedgrids :: "real list list"

record fgmax_grid =
  point_style :: int
  dx :: real
  x1 :: real
  x2 :: real
  y1 :: real
  y2 :: real
  min_level_check :: int
  arrival_tol :: real
  tstart_max :: real
  tend_max :: real
  dt_check :: real
  interp_method :: int

record fgmax_data =
  fgmax_grids :: "fgmax_grid list"
  num_fgmax_val :: int

record surge_data =
  wind_forcing :: bool
  drag_law :: int
  pressure_forcing :: bool
  wind_refine :: pyval
  R_refine :: pyval
  storm_type :: int
  storm_specification_type :: string
  display_landfall_time :: bool
  storm_file :: string

text \<open>\<open>[lower, upper, depths, manning_coefficients]\<close>\<close>

record friction_region =
  friction_lower :: "real list"
  friction_upper :: "real list"
  friction_depths :: "pyfloat list"
  friction_coefficients :: "real list"

record friction_data =
  variable_friction :: bool
  friction_regions :: "friction_region list"

text \<open>
  \<open>geo_data\<close> is the one attribute whose absence \<open>setgeo\<close> catches; \<open>None\<close> stands for
  a run-data object without it.
\<close>

record rundata =
  clawdata :: clawdata
  amrdata :: amrdata
  regiondata :: regiondata
  gaugedata :: gaugedata
  geo_data :: "geo_data option"
  refinement_data :: refinement_data
  topo_data :: topo_data
  dtopo_data :: dtopo_data
  qinit_data :: qinit_data
  fixed_grid_data :: fixed_grid_data
  fgmax_data :: fgmax_data
  surge_data :: surge_data
  friction_data :: friction_data


section \<open>What the modules take from outside\<close>

text \<open>
  Both modules read the current working directory twice: when the module is imported (for
  the global \<open>topodir\<close>) and when \<open>setgeo\<close> runs (for \<open>storm_file\<close>).
\<close>

record process =
  cwd_at_import :: string
  cwd_at_call :: string

text \<open>
  The constructor \<open>data.ClawRunData(claw_pkg, num_dim)\<close> is library code; the functions
  below take it as the parameter \<open>ClawRunData\<close>.  A fresh run-data object has sequences
  of length \<open>num_dim = 2\<close> where the modules assign by index, empty registries, and a
  \<open>geo_data\<close> attribute.
\<close>

definition fresh_rundata :: "rundata \<Rightarrow> bool" where
  "fresh_rundata rd \<longleftrightarrow>
     length (lower (clawdata rd)) = 2 \<and> length (upper (clawdata rd)) = 2 \<and>
     length (num_cells (clawdata rd)) = 2 \<and>
     length (bc_lower (clawdata rd)) = 2 \<and> length (bc_upper (clawdata rd)) = 2 \<and>
     regions (regiondata rd) = [] \<and> gauges (gaugedata rd) = [] \<and>
     force_dry_list (qinit_data rd) = [] \<and> fgmax_grids (fgmax_data rd) = [] \<and>
     friction_regions (friction_data rd) = [] \<and> geo_data rd \<noteq> None"

section \<open>Code shared by the two modules\<close>

definition days2seconds :: "real \<Rightarrow> real" where
  "days2seconds days = fmul (fmul days (fpow 60 2)) 24"

definition topodir :: "process \<Rightarrow> string" where
  "topodir p = os_path_join (os_path_join (cwd_at_import p) ''..'') ''topo''"

text \<open>\<open>xs.append(x)\<close>\<close>

definition list_append :: "'a \<Rightarrow> 'a list \<Rightarrow> 'a list" where
  "list_append x xs = xs @ [x]"

text \<open>Statements on the object \<open>clawdata = rundata.clawdata\<close>.\<close>

definition in_clawdata :: "clawdata stmt \<Rightarrow> rundata stmt" where
  "in_clawdata c rd =
     (case c (clawdata rd) of Inl e \<Rightarrow> Inl e | Inr cd \<Rightarrow> Inr (rd\<lparr>clawdata := cd\<rparr>))"

definition lower_setitem :: "nat \<Rightarrow> real \<Rightarrow> clawdata stmt" where
  "lower_setitem i v c =
     (case setitem (lower c) i v of Inl e \<Rightarrow> Inl e | Inr xs \<Rightarrow> Inr (c\<lparr>lower := xs\<rparr>))"

definition upper_setitem :: "nat \<Rightarrow> real \<Rightarrow> clawdata stmt" where
  "upper_setitem i v c =
     (case setitem (upper c) i v of Inl e \<Rightarrow> Inl e | Inr xs \<Rightarrow> Inr (c\<lparr>upper := xs\<rparr>))"

definition num_cells_setitem :: "nat \<Rightarrow> int \<Rightarrow> clawdata stmt" where
  "num_cells_setitem i v c =
     (case setitem (num_cells c) i v of Inl e \<Rightarrow> Inl e | Inr xs \<Rightarrow> Inr (c\<lparr>num_cells := xs\<rparr>))"

definition bc_lower_setitem :: "nat \<Rightarrow> string \<Rightarrow> clawdata stmt" where
  "bc_lower_setitem i v c =
     (case setitem (bc_lower c) i v of Inl e \<Rightarrow> Inl e | Inr xs \<Rightarrow> Inr (c\<lparr>bc_lower := xs\<rparr>))"

definition bc_upper_setitem :: "nat \<Rightarrow> string \<Rightarrow> clawdata stmt" where
  "bc_upper_setitem i v c =
     (case setitem (bc_upper c) i v of Inl e \<Rightarrow> Inl e | Inr xs \<Rightarrow> Inr (c\<lparr>bc_upper := xs\<rparr>))"

text \<open>The appends to the registries of the run data.\<close>

definition gauges_append :: "gauge \<Rightarrow> rundata stmt" where
  "gauges_append g = assign (gaugedata_update (gauges_update (list_append g)))"

definition regions_append :: "region \<Rightarrow> rundata stmt" where
  "regions_append r = assign (regiondata_update (regions_update (list_append r)))"

definition topofiles_append :: "topofile \<Rightarrow> rundata stmt" where
  "topofiles_append t = assign (topo_data_update (topofiles_update (list_append t)))"

definition force_dry_list_append :: "force_dry \<Rightarrow> rundata stmt" where
  "force_dry_list_append f = assign (qinit_data_update (force_dry_list_update (list_append f)))"

definition fgmax_grids_append :: "fgmax_grid \<Rightarrow> rundata stmt" where
  "fgmax_grids_append fg = assign (fgmax_data_update (fgmax_grids_update (list_append fg)))"

definition friction_regions_append :: "friction_region \<Rightarrow> rundata stmt" where
  "friction_regions_append r = assign (friction_data_update (friction_regions_update (list_append r)))"


section \<open>CalSet/testrun_hagibis/setrun.py\<close>

text \<open>
  The statements of \<open>setrun\<close> on \<open>clawdata\<close>, in the order of the source.  Consecutive
  plain attribute assignments are one \<open>assign\<close>.
\<close>

definition hagibis_clawdata :: "int \<Rightarrow> clawdata stmt list" where
  "hagibis_clawdata nd =
    [assign (\<lambda>c. c\<lparr>num_dim := nd\<rparr>),
     lower_setitem 0 (- 1062000),
     upper_setitem 0 (fsub 396000 2430),
     lower_setitem 1 (- 862000),
     upper_setitem 1 (fsub 377300 2430),
     num_cells_setitem 0 599,
     num_cells_setitem 1 509,
     assign (\<lambda>c. c\<lparr>num_eqn := 3, num_aux := 3 + 1 + 3, capa_index := 0, t0 := 0,
       restart := False, restart_file := ''fort.chk00006'', output_style := 2,
       tfinal := fadd (days2seconds (float_of_int 5)) 3600\<rparr>),
     (\<lambda>c. if output_style c = 1 then
            assign (\<lambda>c. c\<lparr>num_output_times := 121, output_t0 := True\<rparr>) c
          else if output_style c = 2 then
            assign (\<lambda>c. c\<lparr>output_times := map (\<lambda>i. fmul (float_of_int i) 3600) [0..121]\<rparr>) c
          else if output_style c = 3 then
            assign (\<lambda>c. c\<lparr>output_step_interval := 1, total_steps := 1, output_t0 := True\<rparr>) c
          else Inr c),
     assign (\<lambda>c. c\<lparr>output_format := ''ascii'', output_q_components := ''all'',
       output_aux_components := ''all'', output_aux_onlyonce := False, verbosity := 1,
       dt_variable := True, dt_initial := binary64 0.02, dt_max := binary64 (10 ^ 99),
       cfl_desired := binary64 0.50, cfl_max := binary64 0.70, steps_max := 500000,
       order := 1, dimensional_split := ''unsplit'', transverse_waves := 1, num_waves := 3,
       limiter := [''mc'', ''mc'', ''mc''], use_fwaves := True, source_split := ''godunov'',
       num_ghost := 4\<rparr>),
     bc_lower_setitem 0 ''extrap'',
     bc_upper_setitem 0 ''extrap'',
     bc_lower_setitem 1 ''extrap'',
     bc_upper_setitem 1 ''extrap'',
     assign (\<lambda>c. c\<lparr>checkpt_style := 0\<rparr>),
     (\<lambda>c. if checkpt_style c = 0 then Inr c
          else if \<bar>checkpt_style c\<bar> = 1 then Inr c
          else if \<bar>checkpt_style c\<bar> = 2 then
            assign (\<lambda>c. c\<lparr>checkpt_times := [binary64 0.1, binary64 0.15]\<rparr>) c
          else if \<bar>checkpt_style c\<bar> = 3 then
            assign (\<lambda>c. c\<lparr>checkpt_interval := 5\<rparr>) c
          else Inr c)]"

definition hagibis_amrdata :: "amrdata \<Rightarrow> amrdata" where
  "hagibis_amrdata a = a\<lparr>amr_levels_max := 5,
     refinement_ratios_x := [3, 3, 3, 3],
     refinement_ratios_y := [3, 3, 3, 3],
     refinement_ratios_t := [3, 3, 3, 3],
     aux_type := [''center'', ''center'', ''yleft'', ''center'', ''center'', ''center'',
       ''center'', ''center'', ''center''],
     flag_richardson := False, flag2refine := True, regrid_interval := 3,
     regrid_buffer_width := 2, clustering_cutoff := binary64 0.700000, verbosity_regrid := 0,
     dprint := False, eprint := False, edebug := False, gprint := False, nprint := True,
     pprint := False, rprint := False, sprint := False, tprint := True, uprint := False\<rparr>"

definition hagibis_gauges :: "gauge list" where
  "hagibis_gauges =
    [\<lparr>gaugeno = 1, gauge_x = - 148259, gauge_y = - 152271, gauge_t1 = 0, gauge_t2 = 10 ^ 10\<rparr>,
     \<lparr>gaugeno = 2, gauge_x = - 120163, gauge_y = - 108297, gauge_t1 = 0, gauge_t2 = 10 ^ 10\<rparr>,
     \<lparr>gaugeno = 3, gauge_x = - 89128, gauge_y = - 108677, gauge_t1 = 0, gauge_t2 = 10 ^ 10\<rparr>,
     \<lparr>gaugeno = 4, gauge_x = - 87745, gauge_y = - 155540, gauge_t1 = 0, gauge_t2 = 10 ^ 10\<rparr>,
     \<lparr>gaugeno = 5, gauge_x = - 26157, gauge_y = - 216277, gauge_t1 = 0, gauge_t2 = 10 ^ 10\<rparr>,
     \<lparr>gaugeno = 6, gauge_x = - 41183, gauge_y = - 132450, gauge_t1 = 0, gauge_t2 = 10 ^ 10\<rparr>,
     \<lparr>gaugeno = 7, gauge_x = - 62196, gauge_y = - 84840, gauge_t1 = 0, gauge_t2 = 10 ^ 10\<rparr>,
     \<lparr>gaugeno = 8, gauge_x = - 6036, gauge_y = - 38828, gauge_t1 = 0, gauge_t2 = 10 ^ 10\<rparr>,
     \<lparr>gaugeno = 9, gauge_x = - 2430, gauge_y = - 122612, gauge_t1 = 0, gauge_t2 = 10 ^ 10\<rparr>,
     \<lparr>gaugeno = 10, gauge_x = 19237, gauge_y = - 47900, gauge_t1 = 0, gauge_t2 = 10 ^ 10\<rparr>]"

text \<open>
  The two fgmax grids.  \<open>FGmaxGrid()\<close> is library code; the record holds the attributes
  \<open>setgeo\<close> assigns, and \<open>x2\<close>, \<open>y2\<close> read \<open>fg.dx\<close> as assigned two lines before.
\<close>

definition hagibis_fg_domain4 :: fgmax_grid where
  "hagibis_fg_domain4 =
    (let fg_dx = 90 in
     \<lparr>point_style = 2, dx = fg_dx, x1 = - 20790, x2 = fsub 28710 fg_dx,
      y1 = - 82690, y2 = fsub (- 19690) fg_dx, min_level_check = 1,
      arrival_tol = binary64 0.1, tstart_max = fmul 3600 48, tend_max = 10 ^ 10,
      dt_check = 60, interp_method = 0\<rparr>)"

definition hagibis_fg_domain5 :: fgmax_grid where
  "hagibis_fg_domain5 =
    (let fg_dx = 30 in
     \<lparr>point_style = 2, dx = fg_dx, x1 = - 11730, x2 = fsub 7770 fg_dx,
      y1 = - 49630, y2 = fsub (- 19930) fg_dx, min_level_check = 1,
      arrival_tol = binary64 0.1, tstart_max = fmul 3600 48, tend_max = 10 ^ 10,
      dt_check = 60, interp_method = 0\<rparr>)"

text \<open>
  \<open>setgeo(rundata)\<close>.  The statement \<open>fgmax_files = rundata.fgmax_data.fgmax_files\<close>
  only reads an attribute.  The lists \<open>rundata.clawdata.lower\<close> and \<open>upper\<close> enter the
  friction region by reference; nothing mutates them afterwards, so the region holds
  their values.
\<close>

definition hagibis_setgeo :: "process \<Rightarrow> rundata stmt" where
  "hagibis_setgeo p rundata =
    (case geo_data rundata of
       None \<Rightarrow> Inl AttributeError
     | Some _ \<Rightarrow>
       block
        [assign (geo_data_update (map_option (\<lambda>g. g\<lparr>gravity := binary64 9.81,
           coordinate_system := 1, earth_radius := 6367500, rho := 1025,
           rho_air := binary64 1.15, ambient_pressure := 101300,
           coriolis_forcing := False, friction_forcing := True,
           manning_coefficient := binary64 0.025, friction_depth := 10 ^ 10,
           sea_level := 0, dry_tolerance := binary64 0.01\<rparr>))),
         assign (refinement_data_update (\<lambda>r. r\<lparr>wave_tolerance := binary64 0.20,
           speed_tolerance := PyFloats [binary64 0.25, binary64 0.50, binary64 0.75, 1],
           deep_depth := 3000, max_level_deep := 2,
           variable_dt_refinement_ratios := True\<rparr>)),
         assign (topo_data_update (\<lambda>t. t\<lparr>topofiles := []\<rparr>)),
         (\<lambda>rd. topofiles_append \<lparr>topotype = 3, minlevel = 1, maxlevel = 1,
            t1 = t0 (clawdata rd), t2 = tfinal (clawdata rd),
            fname = os_path_join (topodir p) ''topo_01L_mask.dat''\<rparr> rd),
         (\<lambda>rd. topofiles_append \<lparr>topotype = 3, minlevel = 1, maxlevel = 2,
            t1 = t0 (clawdata rd), t2 = tfinal (clawdata rd),
            fname = os_path_join (topodir p) ''topo_02_mask.dat''\<rparr> rd),
         (\<lambda>rd. topofiles_append \<lparr>topotype = 3, minlevel = 1, maxlevel = 3,
            t1 = t0 (clawdata rd), t2 = tfinal (clawdata rd),
            fname = os_path_join (topodir p) ''topo_03_mask.dat''\<rparr> rd),
         (\<lambda>rd. topofiles_append \<lparr>topotype = 3, minlevel = 1, maxlevel = 4,
            t1 = t0 (clawdata rd), t2 = tfinal (clawdata rd),
            fname = os_path_join (topodir p) ''topo_04_mask.dat''\<rparr> rd),
         (\<lambda>rd. topofiles_append \<lparr>topotype = 3, minlevel = 1, maxlevel = 5,
            t1 = t0 (clawdata rd), t2 = tfinal (clawdata rd),
            fname = os_path_join (topodir p) ''topo_05.dat''\<rparr> rd),
         assign (dtopo_data_update (\<lambda>d. d\<lparr>dtopofiles := []\<rparr>)),
         assign (qinit_data_update (\<lambda>q. q\<lparr>qinit_type := 0, qinitfiles := []\<rparr>)),
         force_dry_list_append \<lparr>force_dry_tend = 10 ^ 10,
           force_dry_fname = os_path_join (topodir p) ''force_dry_init_05.dat''\<rparr>,
         assign (fixed_grid_data_update (\<lambda>f. f\<lparr>fixedgrids := []\<rparr>)),
         fgmax_grids_append hagibis_fg_domain4,
         fgmax_grids_append hagibis_fg_domain5,
         assign (fgmax_data_update (\<lambda>f. f\<lparr>num_fgmax_val := 5\<rparr>)),
         assign (surge_data_update (\<lambda>d. d\<lparr>wind_forcing := True, drag_law := 4,
           pressure_forcing := True, wind_refine := PyBool False, R_refine := PyBool False,
           storm_type := - 1, storm_specification_type := ''WRF'',
           display_landfall_time := True,
           storm_file := os_path_join (cwd_at_call p) ''../rcm/''\<rparr>)),
         assign (friction_data_update (\<lambda>d. d\<lparr>variable_friction := True\<rparr>)),
         (\<lambda>rd. friction_regions_append \<lparr>friction_lower = lower (clawdata rd),
            friction_upper = upper (clawdata rd),
            friction_depths = [PosInf, Finite 0, NegInf],
            friction_coefficients = [binary64 0.030, binary64 0.022]\<rparr> rd)]
        rundata)"

text \<open>
  \<open>setrun(claw_pkg)\<close>; \<open>nd\<close> is the local \<open>num_dim\<close>.  The statement
  \<open>regions = rundata.regiondata.regions\<close> only reads the registry, and no region is
  appended.
\<close>

definition hagibis_setrun :: "(string \<Rightarrow> int \<Rightarrow> rundata) \<Rightarrow> process \<Rightarrow> string \<Rightarrow> pyerr + rundata" where
  "hagibis_setrun ClawRunData p claw_pkg =
    (if str_lower claw_pkg \<noteq> ''geoclaw'' then Inl AssertionError
     else
       (let nd = 2 in
        block
         ([in_clawdata (block (hagibis_clawdata nd)),
           assign (amrdata_update hagibis_amrdata)]
          @ map gauges_append hagibis_gauges
          @ [hagibis_setgeo p])
         (ClawRunData claw_pkg nd)))"


section \<open>testrun_haishen/setrun.py\<close>

definition topoflist :: "string \<rightharpoonup> string" where
  "topoflist = [''GEBCO2020'' \<mapsto> ''gebco_2020_n60.0_s0.0_w105.0_e165.0_landmask.asc'']"

definition haishen_clawdata :: "int \<Rightarrow> clawdata stmt list" where
  "haishen_clawdata nd =
    [assign (\<lambda>c. c\<lparr>num_dim := nd\<rparr>),
     lower_setitem 0 120,
     upper_setitem 0 150,
     lower_setitem 1 22,
     upper_setitem 1 52,
     num_cells_setitem 0 300,
     num_cells_setitem 1 300,
     assign (\<lambda>c. c\<lparr>num_eqn := 3, num_aux := 3 + 1 + 3, capa_index := 2, t0 := 0,
       restart := False, restart_file := ''fort.chk00006'', output_style := 2,
       tfinal := fadd (days2seconds (float_of_int 5)) 3600\<rparr>),
     (\<lambda>c. if output_style c = 1 then
            assign (\<lambda>c. c\<lparr>num_output_times := 121, output_t0 := True\<rparr>) c
          else if output_style c = 2 then
            assign (\<lambda>c. c\<lparr>output_times := map (\<lambda>i. fmul (float_of_int i) 1200) [0..359]\<rparr>) c
          else if output_style c = 3 then
            assign (\<lambda>c. c\<lparr>output_step_interval := 1, total_steps := 100, output_t0 := True\<rparr>) c
          else Inr c),
     assign (\<lambda>c. c\<lparr>output_format := ''ascii'', output_q_components := ''all'',
       output_aux_components := ''all'', output_aux_onlyonce := False, verbosity := 1,
       dt_variable := True, dt_initial := binary64 0.5, dt_max := binary64 (10 ^ 99),
       cfl_desired := binary64 0.50, cfl_max := binary64 0.70, steps_max := 500000,
       order := 1, dimensional_split := ''unsplit'', transverse_waves := 1, num_waves := 3,
       limiter := [''mc'', ''mc'', ''mc''], use_fwaves := True, source_split := ''godunov'',
       num_ghost := 4\<rparr>),
     bc_lower_setitem 0 ''extrap'',
     bc_upper_setitem 0 ''extrap'',
     bc_lower_setitem 1 ''extrap'',
     bc_upper_setitem 1 ''extrap'',
     assign (\<lambda>c. c\<lparr>checkpt_style := 0\<rparr>),
     (\<lambda>c. if checkpt_style c = 0 then Inr c
          else if \<bar>checkpt_style c\<bar> = 1 then Inr c
          else if \<bar>checkpt_style c\<bar> = 2 then
            assign (\<lambda>c. c\<lparr>checkpt_times := [binary64 0.1, binary64 0.15]\<rparr>) c
          else if \<bar>checkpt_style c\<bar> = 3 then
            assign (\<lambda>c. c\<lparr>checkpt_interval := 5\<rparr>) c
          else Inr c)]"

definition haishen_amrdata :: "amrdata \<Rightarrow> amrdata" where
  "haishen_amrdata a = a\<lparr>amr_levels_max := 2,
     refinement_ratios_x := [6, 2, 2],
     refinement_ratios_y := [6, 2, 2],
     refinement_ratios_t := [6, 2, 2],
     aux_type := [''center'', ''capacity'', ''yleft'', ''center'', ''center'', ''center'',
       ''center'', ''center'', ''center''],
     flag_richardson := False, flag2refine := True, regrid_interval := 3,
     regrid_buffer_width := 3, clustering_cutoff := binary64 0.700000, verbosity_regrid := 0,
     dprint := False, eprint := False, edebug := False, gprint := False, nprint := True,
     pprint := False, rprint := False, sprint := False, tprint := True, uprint := False\<rparr>"

text \<open>
  \<open>regions.append([1, 2, clawdata.t0, clawdata.tfinal, clawdata.lower[0],
  clawdata.upper[0], clawdata.lower[1], clawdata.upper[1]])\<close>
\<close>

definition haishen_region :: "rundata stmt" where
  "haishen_region rd =
    (let c = clawdata rd in
     case getitem (lower c) 0 of Inl e \<Rightarrow> Inl e | Inr lower0 \<Rightarrow>
     case getitem (upper c) 0 of Inl e \<Rightarrow> Inl e | Inr upper0 \<Rightarrow>
     case getitem (lower c) 1 of Inl e \<Rightarrow> Inl e | Inr lower1 \<Rightarrow>
     case getitem (upper c) 1 of Inl e \<Rightarrow> Inl e | Inr upper1 \<Rightarrow>
       regions_append \<lparr>region_minlevel = 1, region_maxlevel = 2, region_t1 = t0 c,
         region_t2 = tfinal c, region_x1 = lower0, region_x2 = upper0,
         region_y1 = lower1, region_y2 = upper1\<rparr> rd)"

text \<open>
  \<open>topo_file = topotools.Topography(os.path.join(topodir, topoflist['GEBCO2020']),
  topo_type=3)\<close>: the dictionary lookup may raise; the library object goes to a local
  variable that is never read, and the run data stay as they are.
\<close>

definition haishen_topo_file :: "rundata stmt" where
  "haishen_topo_file rd =
    (case topoflist ''GEBCO2020'' of None \<Rightarrow> Inl KeyError | Some _ \<Rightarrow> Inr rd)"

definition haishen_gauges :: "gauge list" where
  "haishen_gauges =
    [\<lparr>gaugeno = 1, gauge_x = binary64 130.22, gauge_y = 33, gauge_t1 = 0, gauge_t2 = 10 ^ 10\<rparr>,
     \<lparr>gaugeno = 2, gauge_x = binary64 130.20, gauge_y = binary64 32.57, gauge_t1 = 0, gauge_t2 = 10 ^ 10\<rparr>,
     \<lparr>gaugeno = 3, gauge_x = binary64 130.25, gauge_y = binary64 33.10, gauge_t1 = 0, gauge_t2 = 10 ^ 10\<rparr>,
     \<lparr>gaugeno = 4, gauge_x = binary64 130.01, gauge_y = binary64 32.47, gauge_t1 = 0, gauge_t2 = 10 ^ 10\<rparr>,
     \<lparr>gaugeno = 5, gauge_x = binary64 128.95, gauge_y = binary64 32.70, gauge_t1 = 0, gauge_t2 = 10 ^ 10\<rparr>,
     \<lparr>gaugeno = 6, gauge_x = binary64 130.60, gauge_y = binary64 31.10, gauge_t1 = 0, gauge_t2 = 10 ^ 10\<rparr>,
     \<lparr>gaugeno = 7, gauge_x = binary64 130.30, gauge_y = binary64 31.20, gauge_t1 = 0, gauge_t2 = 10 ^ 10\<rparr>,
     \<lparr>gaugeno = 8, gauge_x = binary64 131.42, gauge_y = binary64 31.58, gauge_t1 = 0, gauge_t2 = 10 ^ 10\<rparr>,
     \<lparr>gaugeno = 9, gauge_x = 132, gauge_y = binary64 32.97, gauge_t1 = 0, gauge_t2 = 10 ^ 10\<rparr>,
     \<lparr>gaugeno = 10, gauge_x = binary64 132.97, gauge_y = binary64 32.60, gauge_t1 = 0, gauge_t2 = 10 ^ 10\<rparr>,
     \<lparr>gaugeno = 11, gauge_x = binary64 132.43, gauge_y = binary64 33.25, gauge_t1 = 0, gauge_t2 = 10 ^ 10\<rparr>,
     \<lparr>gaugeno = 12, gauge_x = binary64 132.50, gauge_y = binary64 33.80, gauge_t1 = 0, gauge_t2 = 10 ^ 10\<rparr>,
     \<lparr>gaugeno = 13, gauge_x = binary64 131.04, gauge_y = 34, gauge_t1 = 0, gauge_t2 = 10 ^ 10\<rparr>]"

text \<open>
  The fgmax grid: \<open>fg.dx = 1/10\<close> is Python 3's true division of two ints, and the four
  bounds are int literals.
\<close>

definition haishen_fg :: fgmax_grid where
  "haishen_fg =
    \<lparr>point_style = 2, dx = fdiv (float_of_int 1) (float_of_int 10), x1 = 125, x2 = 145,
     y1 = 25, y2 = 45, min_level_check = 1, arrival_tol = binary64 0.1,
     tstart_max = fmul 3600 (float_of_int 24), tend_max = 10 ^ 10, dt_check = 60,
     interp_method = 0\<rparr>"

definition haishen_setgeo :: "process \<Rightarrow> rundata stmt" where
  "haishen_setgeo p rundata =
    (case geo_data rundata of
       None \<Rightarrow> Inl AttributeError
     | Some _ \<Rightarrow>
       block
        [assign (geo_data_update (map_option (\<lambda>g. g\<lparr>gravity := binary64 9.81,
           coordinate_system := 2, earth_radius := 6367500, rho := 1025,
           rho_air := binary64 1.15, ambient_pressure := 101300,
           coriolis_forcing := False, friction_forcing := True,
           manning_coefficient := binary64 0.025, friction_depth := 10 ^ 10,
           sea_level := 0, dry_tolerance := binary64 0.01\<rparr>))),
         assign (refinement_data_update (\<lambda>r. r\<lparr>wave_tolerance := 1,
           speed_tolerance := PyFloat 1, deep_depth := 3000, max_level_deep := 1,
           variable_dt_refinement_ratios := True\<rparr>)),
         assign (topo_data_update (\<lambda>t. t\<lparr>topofiles := []\<rparr>)),
         (\<lambda>rd. case topoflist ''GEBCO2020'' of None \<Rightarrow> Inl KeyError | Some f \<Rightarrow>
            topofiles_append \<lparr>topotype = 3, minlevel = 1, maxlevel = 4,
              t1 = t0 (clawdata rd), t2 = tfinal (clawdata rd),
              fname = os_path_join (topodir p) f\<rparr> rd),
         assign (dtopo_data_update (\<lambda>d. d\<lparr>dtopofiles := []\<rparr>)),
         assign (qinit_data_update (\<lambda>q. q\<lparr>qinit_type := 0, qinitfiles := []\<rparr>)),
         assign (fixed_grid_data_update (\<lambda>f. f\<lparr>fixedgrids := []\<rparr>)),
         fgmax_grids_append haishen_fg,
         assign (fgmax_data_update (\<lambda>f. f\<lparr>num_fgmax_val := 5\<rparr>)),
         assign (surge_data_update (\<lambda>d. d\<lparr>wind_forcing := True, drag_law := 1,
           pressure_forcing := True, wind_refine := PyFloats [20, 30, 40],
           R_refine := PyBool False, storm_type := - 2, storm_specification_type := ''WRF'',
           display_landfall_time := True,
           storm_file := os_path_join (cwd_at_call p) ''./''\<rparr>)),
         assign (friction_data_update (\<lambda>d. d\<lparr>variable_friction := True\<rparr>)),
         (\<lambda>rd. friction_regions_append \<lparr>friction_lower = lower (clawdata rd),
            friction_upper = upper (clawdata rd),
            friction_depths = [PosInf, Finite 0, NegInf],
            friction_coefficients = [binary64 0.030, binary64 0.022]\<rparr> rd)]
        rundata)"

definition haishen_setrun :: "(string \<Rightarrow> int \<Rightarrow> rundata) \<Rightarrow> process \<Rightarrow> string \<Rightarrow> pyerr + rundata" where
  "haishen_setrun ClawRunData p claw_pkg =
    (if str_lower claw_pkg \<noteq> ''geoclaw'' then Inl AssertionError
     else
       (let nd = 2 in
        block
         ([in_clawdata (block (haishen_clawdata nd)),
           assign (amrdata_update haishen_amrdata),
           haishen_region,
           haishen_topo_file]
          @ map gauges_append haishen_gauges
          @ [haishen_setgeo p])
         (ClawRunData claw_pkg nd)))"

section \<open>A run-data object for the examples\<close>

text \<open>
  A fresh object with zero, false or empty in every attribute; \<open>setrun\<close> overwrites
  all of them except the alternatives of the output and checkpoint styles it does not take.
\<close>

definition blank_clawdata :: "int \<Rightarrow> clawdata" where
  "blank_clawdata nd =
    \<lparr>num_dim = nd, lower = replicate (nat nd) 0, upper = replicate (nat nd) 0,
     num_cells = replicate (nat nd) 0, num_eqn = 0, num_aux = 0, capa_index = 0, t0 = 0,
     restart = False, restart_file = [], output_style = 0, tfinal = 0,
     num_output_times = 0, output_t0 = False, output_times = [], output_step_interval = 0,
     total_steps = 0, output_format = [], output_q_components = [],
     output_aux_components = [], output_aux_onlyonce = False, verbosity = 0,
     dt_variable = False, dt_initial = 0, dt_max = 0, cfl_desired = 0, cfl_max = 0,
     steps_max = 0, order = 0, dimensional_split = [], transverse_waves = 0, num_waves = 0,
     limiter = [], use_fwaves = False, source_split = [], num_ghost = 0,
     bc_lower = replicate (nat nd) [], bc_upper = replicate (nat nd) [],
     checkpt_style = 0, checkpt_times = [], checkpt_interval = 0\<rparr>"

definition blank_amrdata :: amrdata where
  "blank_amrdata =
    \<lparr>amr_levels_max = 0, refinement_ratios_x = [], refinement_ratios_y = [],
     refinement_ratios_t = [], aux_type = [], flag_richardson = False, flag2refine = False,
     regrid_interval = 0, regrid_buffer_width = 0, clustering_cutoff = 0,
     verbosity_regrid = 0, dprint = False, eprint = False, edebug = False, gprint = False,
     nprint = False, pprint = False, rprint = False, sprint = False, tprint = False,
     uprint = False\<rparr>"

definition blank_geo_data :: geo_data where
  "blank_geo_data =
    \<lparr>gravity = 0, coordinate_system = 0, earth_radius = 0, rho = 0, rho_air = 0,
     ambient_pressure = 0, coriolis_forcing = False, friction_forcing = False,
     manning_coefficient = 0, friction_depth = 0, sea_level = 0, dry_tolerance = 0\<rparr>"

definition blank_ClawRunData :: "string \<Rightarrow> int \<Rightarrow> rundata" where
  "blank_ClawRunData pkg nd =
    \<lparr>clawdata = blank_clawdata nd, amrdata = blank_amrdata,
     regiondata = \<lparr>regions = []\<rparr>, gaugedata = \<lparr>gauges = []\<rparr>,
     geo_data = Some blank_geo_data,
     refinement_data = \<lparr>wave_tolerance = 0, speed_tolerance = PyBool False, deep_depth = 0,
       max_level_deep = 0, variable_dt_refinement_ratios = False\<rparr>,
     topo_data = \<lparr>topofiles = []\<rparr>, dtopo_data = \<lparr>dtopofiles = []\<rparr>,
     qinit_data = \<lparr>qinit_type = 0, qinitfiles = [], force_dry_list = []\<rparr>,
     fixed_grid_data = \<lparr>fixedgrids = []\<rparr>,
     fgmax_data = \<lparr>fgmax_grids = [], num_fgmax_val = 0\<rparr>,
     surge_data = \<lparr>wind_forcing = False, drag_law = 0, pressure_forcing = False,
       wind_refine = PyBool False, R_refine = PyBool False, storm_type = 0,
       storm_specification_type = [], display_landfall_time = False, storm_file = []\<rparr>,
     friction_data = \<lparr>variable_friction = False, friction_regions = []\<rparr>\<rparr>"

definition example_process :: process where
  "example_process = \<lparr>cwd_at_import = ''/home/user/testrun'', cwd_at_call = ''/home/user/testrun''\<rparr>"


text \<open>The two configurations built on that object.\<close>

definition hagibis_example :: "pyerr + rundata" where
  "hagibis_example = hagibis_setrun blank_ClawRunData example_process ''geoclaw''"

definition haishen_example :: "pyerr + rundata" where
  "haishen_example = haishen_setrun blank_ClawRunData example_process ''geoclaw''"

section \<open>Properties of a configuration\<close>

subsection \<open>Refinement ratios\<close>

definition ratio_lengths_exact :: "amrdata \<Rightarrow> bool" where
  "ratio_lengths_exact a \<longleftrightarrow>
     int (length (refinement_ratios_x a)) = amr_levels_max a - 1 \<and>
     int (length (refinement_ratios_y a)) = amr_levels_max a - 1 \<and>
     int (length (refinement_ratios_t a)) = amr_levels_max a - 1"

text \<open>The source's comment on the three lists: "length at least mxnest-1".\<close>

definition ratio_lengths_cover :: "amrdata \<Rightarrow> bool" where
  "ratio_lengths_cover a \<longleftrightarrow>
     length (refinement_ratios_x a) = length (refinement_ratios_y a) \<and>
     length (refinement_ratios_y a) = length (refinement_ratios_t a) \<and>
     amr_levels_max a - 1 \<le> int (length (refinement_ratios_x a))"

subsection \<open>Topography entries\<close>

definition topofile_levels_ordered :: "topofile \<Rightarrow> bool" where
  "topofile_levels_ordered t \<longleftrightarrow> 1 \<le> minlevel t \<and> minlevel t \<le> maxlevel t"

definition topofile_times_ok :: "rundata \<Rightarrow> topofile \<Rightarrow> bool" where
  "topofile_times_ok rd t \<longleftrightarrow>
     t1 t \<le> t2 t \<and> t0 (clawdata rd) \<le> t1 t \<and> t2 t \<le> tfinal (clawdata rd)"

definition topofile_ok :: "rundata \<Rightarrow> topofile \<Rightarrow> bool" where
  "topofile_ok rd t \<longleftrightarrow>
     topofile_levels_ordered t \<and> maxlevel t \<le> amr_levels_max (amrdata rd) \<and>
     topofile_times_ok rd t"

subsection \<open>Friction regions\<close>

text \<open>
  The depth list of a region runs from \<open>np.infty\<close> to \<open>-np.infty\<close>; the thresholds
  between the brackets are its finite entries.
\<close>

fun finite_depths :: "pyfloat list \<Rightarrow> real list" where
  "finite_depths [] = []"
| "finite_depths (Finite x # ds) = x # finite_depths ds"
| "finite_depths (_ # ds) = finite_depths ds"

definition descending :: "pyfloat list \<Rightarrow> bool" where
  "descending ds \<longleftrightarrow> sorted_wrt (\<lambda>a b. pyfloat_less b a) ds"

definition friction_region_ok :: "friction_region \<Rightarrow> bool" where
  "friction_region_ok r \<longleftrightarrow>
     length (friction_coefficients r) = length (finite_depths (friction_depths r)) + 1 \<and>
     descending (friction_depths r)"

text \<open>A region with one threshold and one coefficient.\<close>

definition mismatched_friction_region :: friction_region where
  "mismatched_friction_region =
    \<lparr>friction_lower = [0, 0], friction_upper = [1, 1],
     friction_depths = [PosInf, Finite 0, NegInf],
     friction_coefficients = [binary64 0.012]\<rparr>"

subsection \<open>Coordinate system and capacity slot\<close>

definition geographic :: "rundata \<Rightarrow> bool" where
  "geographic rd \<longleftrightarrow> map_option coordinate_system (geo_data rd) = Some 2"

definition cartesian :: "rundata \<Rightarrow> bool" where
  "cartesian rd \<longleftrightarrow> map_option coordinate_system (geo_data rd) = Some 1"

text \<open>
  \<open>capa_index\<close> counts the aux slots from 1, and 0 means that there is no capacity
  function.  The slot is designated when \<open>capa_index\<close> points at an entry of
  \<open>aux_type\<close> that reads \<open>'capacity'\<close>.
\<close>

definition capacity_slot :: "rundata \<Rightarrow> bool" where
  "capacity_slot rd \<longleftrightarrow>
     0 < capa_index (clawdata rd) \<and>
     nat (capa_index (clawdata rd)) \<le> length (aux_type (amrdata rd)) \<and>
     aux_type (amrdata rd) ! (nat (capa_index (clawdata rd)) - 1) = ''capacity''"

text \<open>The assignment \<open>geo_data.coordinate_system = 2\<close>, as in \<open>setgeo\<close> of the Haishen module.\<close>

definition set_geographic :: "rundata stmt" where
  "set_geographic = assign (geo_data_update (map_option (\<lambda>g. g\<lparr>coordinate_system := 2\<rparr>)))"

subsection \<open>Output times\<close>

definition output_times_ok :: "clawdata \<Rightarrow> bool" where
  "output_times_ok c \<longleftrightarrow>
     sorted_wrt (<) (output_times c) \<and>
     list_all (\<lambda>t. t0 c \<le> t \<and> t \<le> tfinal c) (output_times c)"

text \<open>
  The assignments \<open>clawdata.tfinal = 3600.0\<close> and
  \<open>clawdata.output_times = [0.0, 3600.0, 7200.0]\<close>.
\<close>

definition set_late_output_time :: "rundata stmt" where
  "set_late_output_time =
     in_clawdata (assign (\<lambda>c. c\<lparr>tfinal := 3600, output_times := [0, 3600, 7200]\<rparr>))"

subsection \<open>Gauges\<close>

definition gauge_ids_distinct :: "rundata \<Rightarrow> bool" where
  "gauge_ids_distinct rd \<longleftrightarrow> distinct (map gaugeno (gauges (gaugedata rd)))"

definition duplicate_gauge :: gauge where
  "duplicate_gauge = \<lparr>gaugeno = 1, gauge_x = 0, gauge_y = 0, gauge_t1 = 0, gauge_t2 = 10 ^ 10\<rparr>"

subsection \<open>Paths\<close>

text \<open>The run data with every recorded path blanked.\<close>

definition without_paths :: "rundata \<Rightarrow> rundata" where
  "without_paths rd =
     rd\<lparr>topo_data := (topo_data rd)\<lparr>topofiles :=
           map (\<lambda>t. t\<lparr>fname := []\<rparr>) (topofiles (topo_data rd))\<rparr>,
        qinit_data := (qinit_data rd)\<lparr>force_dry_list :=
           map (\<lambda>f. f\<lparr>force_dry_fname := []\<rparr>) (force_dry_list (qinit_data rd))\<rparr>,
        surge_data := (surge_data rd)\<lparr>storm_file := []\<rparr>\<rparr>"

definition other_process :: process where
  "other_process = \<lparr>cwd_at_import = ''/tmp/elsewhere'', cwd_at_call = ''/tmp/elsewhere''\<rparr>"

section \<open>Facts about the float operations\<close>

lemma pow2_powr: "pow2 e = 2 powr (of_int e)"
proof (cases "0 \<le> e")
  case True
  then show ?thesis by (simp add: pow2_def powr_realpow [symmetric])
next
  case False
  then have "real_of_int e = - real (nat (- e))" by simp
  then have "2 powr (of_int e) = 1 / 2 powr (real (nat (- e)))"
    by (simp only: powr_minus_divide)
  also have "\<dots> = 1 / 2 ^ nat (- e)" by (simp only: powr_realpow zero_less_numeral)
  finally show ?thesis using False by (simp add: pow2_def)
qed

lemma pow2_add: "pow2 (a + b) = pow2 a * pow2 b"
  by (simp add: pow2_powr powr_add)

lemma pow2_nat: "pow2 (int k) = 2 ^ k"
  by (simp add: pow2_def)

lemma pow2_less_iff: "pow2 a < pow2 b \<longleftrightarrow> a < b"
  by (simp add: pow2_powr)

lemma round_half_even_int: "round_half_even (of_int z) = z"
  by (simp add: round_half_even_def)

text \<open>The exponent of a real of magnitude at least 1 is the bit length of its integer part.\<close>

lemma fexp_bounds:
  assumes "1 \<le> \<bar>x\<bar>"
  shows "0 \<le> fexp x" and "pow2 (fexp x) \<le> \<bar>x\<bar>" and "\<bar>x\<bar> < pow2 (fexp x + 1)"
proof -
  define n where "n = \<lfloor>\<bar>x\<bar>\<rfloor>"
  have n1: "1 \<le> n" using assms by (simp add: n_def)
  then have npos: "0 < n" by simp
  have e: "fexp x = bitlen n - 1" using assms by (simp add: fexp_def n_def)
  have b1: "1 \<le> bitlen n"
    using npos bitlen_eq_zero_iff [of n] bitlen_nonneg [of n] by linarith
  from bitlen_bounds [OF npos]
  have lo: "2 ^ nat (bitlen n - 1) \<le> n" and hi: "n < 2 ^ nat (bitlen n)" by simp_all
  show "0 \<le> fexp x" using b1 e by simp
  have "real_of_int (2 ^ nat (bitlen n - 1)) \<le> real_of_int n" using lo by linarith
  also have "real_of_int n \<le> \<bar>x\<bar>" by (simp add: n_def)
  finally show "pow2 (fexp x) \<le> \<bar>x\<bar>" using b1 by (simp add: pow2_def e)
  have "n + 1 \<le> 2 ^ nat (bitlen n)" using hi by simp
  then have "real_of_int (n + 1) \<le> real_of_int (2 ^ nat (bitlen n))" by linarith
  moreover have "\<bar>x\<bar> < real_of_int (n + 1)" by (simp add: n_def)
  ultimately show "\<bar>x\<bar> < pow2 (fexp x + 1)" using b1 by (simp add: pow2_def e)
qed

text \<open>An integer of fewer than 54 bits, scaled by a power of two, is a double.\<close>

lemma binary64_exact:
  assumes "\<bar>m\<bar> < 2 ^ 53"
  shows "binary64 (of_int m * 2 ^ k) = of_int m * 2 ^ k"
proof (cases "m = 0")
  case True
  then show ?thesis by (simp add: binary64_def)
next
  case False
  define x :: real where "x = of_int m * 2 ^ k"
  have x0: "x \<noteq> 0" using False by (simp add: x_def)
  have "1 \<le> \<bar>real_of_int m\<bar>" using False by linarith
  moreover have "(1::real) \<le> 2 ^ k" by simp
  ultimately have "1 * 1 \<le> \<bar>real_of_int m\<bar> * 2 ^ k" by (intro mult_mono) simp_all
  then have x1: "1 \<le> \<bar>x\<bar>" by (simp add: x_def abs_mult)
  define e where "e = fexp x"
  note fb = fexp_bounds [OF x1, folded e_def]
  have emax: "max e (- 1022) = e" using fb(1) by simp
  have "real_of_int \<bar>m\<bar> < real_of_int (2 ^ 53)"
    using assms by (simp only: of_int_less_iff)
  then have "\<bar>real_of_int m\<bar> < 2 ^ 53" by simp
  then have "\<bar>x\<bar> < 2 ^ 53 * 2 ^ k" by (simp add: x_def abs_mult)
  also have "\<dots> = pow2 (53 + int k)" by (simp add: pow2_add pow2_nat) (simp add: pow2_def)
  finally have "pow2 e < pow2 (53 + int k)" using fb(2) by linarith
  then have ek: "e < 53 + int k" by (simp add: pow2_less_iff)
  define j where "j = nat (52 - e + int k)"
  have j: "int j = 52 - e + int k" using ek by (simp add: j_def)
  have "x * pow2 (52 - e) = of_int m * (pow2 (int k) * pow2 (52 - e))"
    by (simp add: x_def pow2_nat)
  also have "pow2 (int k) * pow2 (52 - e) = pow2 (int j)"
    by (simp add: pow2_add [symmetric] j add.commute)
  finally have q: "x * pow2 (52 - e) = of_int (m * 2 ^ j)" by (simp add: pow2_nat)
  have "of_int (m * 2 ^ j) * pow2 (e - 52) = of_int m * (pow2 (int j) * pow2 (e - 52))"
    by (simp add: pow2_nat)
  also have "pow2 (int j) * pow2 (e - 52) = pow2 (int k)"
    by (simp add: pow2_add [symmetric] j add.commute)
  finally have r: "of_int (m * 2 ^ j) * pow2 (e - 52) = x" by (simp add: pow2_nat x_def)
  have "binary64 x = of_int (round_half_even (x * pow2 (52 - e))) * pow2 (e - 52)"
    using x0 emax by (simp add: binary64_def e_def [symmetric])
  also have "\<dots> = x" unfolding q round_half_even_int by (rule r)
  finally show ?thesis by (simp add: x_def)
qed

lemma binary64_of_int: "\<bar>m\<bar> < 2 ^ 53 \<Longrightarrow> binary64 (of_int m) = of_int m"
  using binary64_exact [of m 0] by simp

lemma binary64_numeral:
  "(numeral w :: int) < 2 ^ 53 \<Longrightarrow> binary64 (numeral w) = numeral w"
  using binary64_of_int [of "numeral w"] by simp

lemma binary64_neg_numeral:
  "(numeral w :: int) < 2 ^ 53 \<Longrightarrow> binary64 (- numeral w) = - numeral w"
  using binary64_of_int [of "- numeral w"] by simp

lemma binary64_0: "binary64 0 = 0"
  by (simp add: binary64_def)

lemma binary64_1: "binary64 1 = 1"
  using binary64_of_int [of 1] by simp

lemmas binary64_int = binary64_numeral binary64_neg_numeral binary64_0 binary64_1

lemma float_of_int_exact: "\<bar>n\<bar> < 2 ^ 53 \<Longrightarrow> float_of_int n = of_int n"
  by (simp add: float_of_int_def binary64_of_int)

lemma days2seconds_int:
  assumes "\<bar>n\<bar> \<le> 13000000000000"
  shows "days2seconds (float_of_int n) = of_int n * 86400"
proof -
  have n: "float_of_int n = of_int n"
    using assms by (intro float_of_int_exact) simp
  have a: "binary64 (of_int n * 3600) = of_int n * 3600"
    using binary64_exact [of "n * 225" 4] assms by (simp add: abs_mult mult.commute)
  have b: "binary64 (of_int n * 3600 * 24) = of_int n * 86400"
    using binary64_exact [of "n * 675" 7] assms by (simp add: abs_mult mult.commute)
  have c: "binary64 (60 ^ 2) = 3600" by (simp add: binary64_int)
  show ?thesis unfolding days2seconds_def fmul_def fpow_def n c a b by (rule refl)
qed

lemma tfinal_value: "fadd (days2seconds (float_of_int 5)) 3600 = 435600"
  using days2seconds_int [of 5] by (simp add: fadd_def binary64_int)

text \<open>The output times \<open>i*3600.0\<close> and \<open>i*1200.0\<close> are exact.\<close>

lemma hourly_exact:
  assumes "0 \<le> i" "i \<le> 1000"
  shows "fmul (float_of_int i) 3600 = of_int i * 3600"
proof -
  have n: "float_of_int i = of_int i"
    using assms by (intro float_of_int_exact) simp
  have "binary64 (of_int i * 3600) = of_int i * 3600"
    using binary64_exact [of "i * 225" 4] assms by (simp add: abs_mult mult.commute)
  then show ?thesis by (simp add: fmul_def n)
qed

lemma twenty_minutes_exact:
  assumes "0 \<le> i" "i \<le> 1000"
  shows "fmul (float_of_int i) 1200 = of_int i * 1200"
proof -
  have n: "float_of_int i = of_int i"
    using assms by (intro float_of_int_exact) simp
  have "binary64 (of_int i * 1200) = of_int i * 1200"
    using binary64_exact [of "i * 75" 4] assms by (simp add: abs_mult mult.commute)
  then show ?thesis by (simp add: fmul_def n)
qed

lemma scaled_upto_ok:
  assumes "0 < k" "of_int n * k \<le> T"
  shows "sorted_wrt (<) (map (\<lambda>i. real_of_int i * k) [0..n])"
    and "list_all (\<lambda>t. 0 \<le> t \<and> t \<le> T) (map (\<lambda>i. real_of_int i * k) [0..n])"
proof -
  have "sorted_wrt (\<lambda>i j. real_of_int i * k < real_of_int j * k) [0..n]"
    by (rule sorted_wrt_mono_rel [OF _ sorted_wrt_upto]) (use assms(1) in simp)
  then show "sorted_wrt (<) (map (\<lambda>i. real_of_int i * k) [0..n])"
    by (simp add: sorted_wrt_map)
  have "real_of_int i * k \<le> T" if "i \<le> n" for i
  proof -
    have "real_of_int i * k \<le> real_of_int n * k"
      using that assms(1) by (intro mult_right_mono) simp_all
    then show ?thesis using assms(2) by linarith
  qed
  then show "list_all (\<lambda>t. 0 \<le> t \<and> t \<le> T) (map (\<lambda>i. real_of_int i * k) [0..n])"
    using assms(1) by (simp add: list_all_iff)
qed

section \<open>What the two modules build\<close>

lemma length2E: "length xs = 2 \<Longrightarrow> \<exists>a b. xs = [a, b]"
  by (cases xs; cases "tl xs") auto

lemma fresh_rundataD:
  assumes "fresh_rundata rd"
  shows "\<exists>l0 l1 u0 u1 n0 n1 bl0 bl1 bu0 bu1 g.
     lower (clawdata rd) = [l0, l1] \<and> upper (clawdata rd) = [u0, u1] \<and>
     num_cells (clawdata rd) = [n0, n1] \<and>
     bc_lower (clawdata rd) = [bl0, bl1] \<and> bc_upper (clawdata rd) = [bu0, bu1] \<and>
     geo_data rd = Some g"
  using assms unfolding fresh_rundata_def
  by (auto dest!: length2E)

lemma fresh_blank: "fresh_rundata (blank_ClawRunData pkg 2)"
  by (simp add: fresh_rundata_def blank_ClawRunData_def blank_clawdata_def)

lemma lower_geoclaw: "str_lower ''geoclaw'' = ''geoclaw''"
  by (simp add: str_lower_def char_lower_def)

lemmas stmt_defs = in_clawdata_def lower_setitem_def upper_setitem_def num_cells_setitem_def
  bc_lower_setitem_def bc_upper_setitem_def setitem_def getitem_def assign_def gauges_append_def
  regions_append_def topofiles_append_def force_dry_list_append_def fgmax_grids_append_def
  friction_regions_append_def list_append_def

lemma hagibis_Inr_geoclaw: "hagibis_setrun mk p pkg = Inr rd \<Longrightarrow> str_lower pkg = ''geoclaw''"
  by (simp add: hagibis_setrun_def split: if_splits)

lemma haishen_Inr_geoclaw: "haishen_setrun mk p pkg = Inr rd \<Longrightarrow> str_lower pkg = ''geoclaw''"
  by (simp add: haishen_setrun_def split: if_splits)

lemma hagibis_result:
  assumes "fresh_rundata (mk pkg 2)" "str_lower pkg = ''geoclaw''"
  shows "\<exists>rd. hagibis_setrun mk p pkg = Inr rd \<and>
     lower (clawdata rd) = [- 1062000, - 862000] \<and>
     upper (clawdata rd) = [393570, 374870] \<and>
     num_cells (clawdata rd) = [599, 509] \<and>
     capa_index (clawdata rd) = 0 \<and>
     t0 (clawdata rd) = 0 \<and> tfinal (clawdata rd) = 435600 \<and>
     output_style (clawdata rd) = 2 \<and>
     output_times (clawdata rd) = map (\<lambda>i. fmul (float_of_int i) 3600) [0..121] \<and>
     amr_levels_max (amrdata rd) = 5 \<and>
     refinement_ratios_x (amrdata rd) = [3, 3, 3, 3] \<and>
     refinement_ratios_y (amrdata rd) = [3, 3, 3, 3] \<and>
     refinement_ratios_t (amrdata rd) = [3, 3, 3, 3] \<and>
     aux_type (amrdata rd) = [''center'', ''center'', ''yleft'', ''center'', ''center'',
       ''center'', ''center'', ''center'', ''center''] \<and>
     map gaugeno (gauges (gaugedata rd)) = [1, 2, 3, 4, 5, 6, 7, 8, 9, 10] \<and>
     map_option coordinate_system (geo_data rd) = Some 1 \<and>
     topofiles (topo_data rd) =
       [\<lparr>topotype = 3, minlevel = 1, maxlevel = 1, t1 = 0, t2 = 435600,
         fname = os_path_join (topodir p) ''topo_01L_mask.dat''\<rparr>,
        \<lparr>topotype = 3, minlevel = 1, maxlevel = 2, t1 = 0, t2 = 435600,
         fname = os_path_join (topodir p) ''topo_02_mask.dat''\<rparr>,
        \<lparr>topotype = 3, minlevel = 1, maxlevel = 3, t1 = 0, t2 = 435600,
         fname = os_path_join (topodir p) ''topo_03_mask.dat''\<rparr>,
        \<lparr>topotype = 3, minlevel = 1, maxlevel = 4, t1 = 0, t2 = 435600,
         fname = os_path_join (topodir p) ''topo_04_mask.dat''\<rparr>,
        \<lparr>topotype = 3, minlevel = 1, maxlevel = 5, t1 = 0, t2 = 435600,
         fname = os_path_join (topodir p) ''topo_05.dat''\<rparr>] \<and>
     friction_regions (friction_data rd) =
       [\<lparr>friction_lower = [- 1062000, - 862000], friction_upper = [393570, 374870],
         friction_depths = [PosInf, Finite 0, NegInf],
         friction_coefficients = [binary64 0.030, binary64 0.022]\<rparr>] \<and>
     storm_file (surge_data rd) = os_path_join (cwd_at_call p) ''../rcm/''"
proof -
  from fresh_rundataD [OF assms(1)] obtain l0 l1 u0 u1 n0 n1 bl0 bl1 bu0 bu1 g where f:
     "lower (clawdata (mk pkg 2)) = [l0, l1]" "upper (clawdata (mk pkg 2)) = [u0, u1]"
     "num_cells (clawdata (mk pkg 2)) = [n0, n1]"
     "bc_lower (clawdata (mk pkg 2)) = [bl0, bl1]" "bc_upper (clawdata (mk pkg 2)) = [bu0, bu1]"
     "geo_data (mk pkg 2) = Some g"
    by blast
  have e: "regions (regiondata (mk pkg 2)) = []" "gauges (gaugedata (mk pkg 2)) = []"
     "force_dry_list (qinit_data (mk pkg 2)) = []" "fgmax_grids (fgmax_data (mk pkg 2)) = []"
     "friction_regions (friction_data (mk pkg 2)) = []"
    using assms(1) by (simp_all add: fresh_rundata_def)
  show ?thesis
    using assms(2) f e
    by (simp add: hagibis_setrun_def hagibis_clawdata_def hagibis_amrdata_def hagibis_gauges_def
      hagibis_setgeo_def stmt_defs tfinal_value fsub_def binary64_int)
qed

lemma haishen_result:
  assumes "fresh_rundata (mk pkg 2)" "str_lower pkg = ''geoclaw''"
  shows "\<exists>rd. haishen_setrun mk p pkg = Inr rd \<and>
     lower (clawdata rd) = [120, 22] \<and>
     upper (clawdata rd) = [150, 52] \<and>
     num_cells (clawdata rd) = [300, 300] \<and>
     capa_index (clawdata rd) = 2 \<and>
     t0 (clawdata rd) = 0 \<and> tfinal (clawdata rd) = 435600 \<and>
     output_style (clawdata rd) = 2 \<and>
     output_times (clawdata rd) = map (\<lambda>i. fmul (float_of_int i) 1200) [0..359] \<and>
     amr_levels_max (amrdata rd) = 2 \<and>
     refinement_ratios_x (amrdata rd) = [6, 2, 2] \<and>
     refinement_ratios_y (amrdata rd) = [6, 2, 2] \<and>
     refinement_ratios_t (amrdata rd) = [6, 2, 2] \<and>
     aux_type (amrdata rd) = [''center'', ''capacity'', ''yleft'', ''center'', ''center'',
       ''center'', ''center'', ''center'', ''center''] \<and>
     map gaugeno (gauges (gaugedata rd)) = [1, 2, 3, 4, 5, 6, 7, 8, 9, 10, 11, 12, 13] \<and>
     map_option coordinate_system (geo_data rd) = Some 2 \<and>
     topofiles (topo_data rd) =
       [\<lparr>topotype = 3, minlevel = 1, maxlevel = 4, t1 = 0, t2 = 435600,
         fname = os_path_join (topodir p)
           ''gebco_2020_n60.0_s0.0_w105.0_e165.0_landmask.asc''\<rparr>] \<and>
     friction_regions (friction_data rd) =
       [\<lparr>friction_lower = [120, 22], friction_upper = [150, 52],
         friction_depths = [PosInf, Finite 0, NegInf],
         friction_coefficients = [binary64 0.030, binary64 0.022]\<rparr>] \<and>
     storm_file (surge_data rd) = os_path_join (cwd_at_call p) ''./''"
proof -
  from fresh_rundataD [OF assms(1)] obtain l0 l1 u0 u1 n0 n1 bl0 bl1 bu0 bu1 g where f:
     "lower (clawdata (mk pkg 2)) = [l0, l1]" "upper (clawdata (mk pkg 2)) = [u0, u1]"
     "num_cells (clawdata (mk pkg 2)) = [n0, n1]"
     "bc_lower (clawdata (mk pkg 2)) = [bl0, bl1]" "bc_upper (clawdata (mk pkg 2)) = [bu0, bu1]"
     "geo_data (mk pkg 2) = Some g"
    by blast
  have e: "regions (regiondata (mk pkg 2)) = []" "gauges (gaugedata (mk pkg 2)) = []"
     "force_dry_list (qinit_data (mk pkg 2)) = []" "fgmax_grids (fgmax_data (mk pkg 2)) = []"
     "friction_regions (friction_data (mk pkg 2)) = []"
    using assms(1) by (simp_all add: fresh_rundata_def)
  show ?thesis
    using assms(2) f e
    by (simp add: haishen_setrun_def haishen_clawdata_def haishen_amrdata_def haishen_gauges_def
      haishen_setgeo_def haishen_region_def haishen_topo_file_def topoflist_def stmt_defs
      tfinal_value binary64_int)
qed

text \<open>The same facts for any run data a module returns.\<close>

lemma hagibis_fields:
  assumes "fresh_rundata (mk pkg 2)" "hagibis_setrun mk p pkg = Inr rd"
  shows "lower (clawdata rd) = [- 1062000, - 862000]"
    and "upper (clawdata rd) = [393570, 374870]"
    and "num_cells (clawdata rd) = [599, 509]"
    and "capa_index (clawdata rd) = 0"
    and "t0 (clawdata rd) = 0" and "tfinal (clawdata rd) = 435600"
    and "output_style (clawdata rd) = 2"
    and "output_times (clawdata rd) = map (\<lambda>i. fmul (float_of_int i) 3600) [0..121]"
    and "amr_levels_max (amrdata rd) = 5"
    and "refinement_ratios_x (amrdata rd) = [3, 3, 3, 3]"
    and "refinement_ratios_y (amrdata rd) = [3, 3, 3, 3]"
    and "refinement_ratios_t (amrdata rd) = [3, 3, 3, 3]"
    and "aux_type (amrdata rd) = [''center'', ''center'', ''yleft'', ''center'', ''center'',
       ''center'', ''center'', ''center'', ''center'']"
    and "map gaugeno (gauges (gaugedata rd)) = [1, 2, 3, 4, 5, 6, 7, 8, 9, 10]"
    and "map_option coordinate_system (geo_data rd) = Some 1"
    and "topofiles (topo_data rd) =
       [\<lparr>topotype = 3, minlevel = 1, maxlevel = 1, t1 = 0, t2 = 435600,
         fname = os_path_join (topodir p) ''topo_01L_mask.dat''\<rparr>,
        \<lparr>topotype = 3, minlevel = 1, maxlevel = 2, t1 = 0, t2 = 435600,
         fname = os_path_join (topodir p) ''topo_02_mask.dat''\<rparr>,
        \<lparr>topotype = 3, minlevel = 1, maxlevel = 3, t1 = 0, t2 = 435600,
         fname = os_path_join (topodir p) ''topo_03_mask.dat''\<rparr>,
        \<lparr>topotype = 3, minlevel = 1, maxlevel = 4, t1 = 0, t2 = 435600,
         fname = os_path_join (topodir p) ''topo_04_mask.dat''\<rparr>,
        \<lparr>topotype = 3, minlevel = 1, maxlevel = 5, t1 = 0, t2 = 435600,
         fname = os_path_join (topodir p) ''topo_05.dat''\<rparr>]"
    and "friction_regions (friction_data rd) =
       [\<lparr>friction_lower = [- 1062000, - 862000], friction_upper = [393570, 374870],
         friction_depths = [PosInf, Finite 0, NegInf],
         friction_coefficients = [binary64 0.030, binary64 0.022]\<rparr>]"
    and "storm_file (surge_data rd) = os_path_join (cwd_at_call p) ''../rcm/''"
  using hagibis_result [where mk = mk and pkg = pkg and p = p, OF assms(1) hagibis_Inr_geoclaw [OF assms(2)]] assms(2)
  by auto

lemma haishen_fields:
  assumes "fresh_rundata (mk pkg 2)" "haishen_setrun mk p pkg = Inr rd"
  shows "lower (clawdata rd) = [120, 22]"
    and "upper (clawdata rd) = [150, 52]"
    and "num_cells (clawdata rd) = [300, 300]"
    and "capa_index (clawdata rd) = 2"
    and "t0 (clawdata rd) = 0" and "tfinal (clawdata rd) = 435600"
    and "output_style (clawdata rd) = 2"
    and "output_times (clawdata rd) = map (\<lambda>i. fmul (float_of_int i) 1200) [0..359]"
    and "amr_levels_max (amrdata rd) = 2"
    and "refinement_ratios_x (amrdata rd) = [6, 2, 2]"
    and "refinement_ratios_y (amrdata rd) = [6, 2, 2]"
    and "refinement_ratios_t (amrdata rd) = [6, 2, 2]"
    and "aux_type (amrdata rd) = [''center'', ''capacity'', ''yleft'', ''center'', ''center'',
       ''center'', ''center'', ''center'', ''center'']"
    and "map gaugeno (gauges (gaugedata rd)) = [1, 2, 3, 4, 5, 6, 7, 8, 9, 10, 11, 12, 13]"
    and "map_option coordinate_system (geo_data rd) = Some 2"
    and "topofiles (topo_data rd) =
       [\<lparr>topotype = 3, minlevel = 1, maxlevel = 4, t1 = 0, t2 = 435600,
         fname = os_path_join (topodir p)
           ''gebco_2020_n60.0_s0.0_w105.0_e165.0_landmask.asc''\<rparr>]"
    and "friction_regions (friction_data rd) =
       [\<lparr>friction_lower = [120, 22], friction_upper = [150, 52],
         friction_depths = [PosInf, Finite 0, NegInf],
         friction_coefficients = [binary64 0.030, binary64 0.022]\<rparr>]"
    and "storm_file (surge_data rd) = os_path_join (cwd_at_call p) ''./''"
  using haishen_result [where mk = mk and pkg = pkg and p = p, OF assms(1) haishen_Inr_geoclaw [OF assms(2)]] assms(2)
  by auto

text \<open>The example configurations are built without an exception.\<close>

lemma hagibis_example_Inr: "hagibis_example = Inr (projr hagibis_example)"
  using hagibis_result [where mk = blank_ClawRunData and pkg = "''geoclaw''" and p = example_process, OF fresh_blank lower_geoclaw]
  by (auto simp: hagibis_example_def)

lemma haishen_example_Inr: "haishen_example = Inr (projr haishen_example)"
  using haishen_result [where mk = blank_ClawRunData and pkg = "''geoclaw''" and p = example_process, OF fresh_blank lower_geoclaw]
  by (auto simp: haishen_example_def)

lemmas hagibis_example_fields =
  hagibis_fields [where mk = blank_ClawRunData and pkg = "''geoclaw''" and p = example_process,
    OF fresh_blank hagibis_example_Inr [unfolded hagibis_example_def],
    folded hagibis_example_def]

lemmas haishen_example_fields =
  haishen_fields [where mk = blank_ClawRunData and pkg = "''geoclaw''" and p = example_process,
    OF fresh_blank haishen_example_Inr [unfolded haishen_example_def],
    folded haishen_example_def]

lemma hagibis_example_run:
  "hagibis_setrun blank_ClawRunData example_process ''geoclaw'' = Inr (projr hagibis_example)"
  using hagibis_example_Inr by (simp only: hagibis_example_def)

lemma haishen_example_run:
  "haishen_setrun blank_ClawRunData example_process ''geoclaw'' = Inr (projr haishen_example)"
  using haishen_example_Inr by (simp only: haishen_example_def)

subsection \<open>No statement of the two bodies raises AssertionError\<close>

lemma block_neq:
  assumes "\<And>c s. c \<in> set cs \<Longrightarrow> c s \<noteq> Inl e"
  shows "block cs s \<noteq> Inl e"
  using assms
proof (induction cs arbitrary: s)
  case Nil
  show ?case by simp
next
  case (Cons c cs)
  show ?case
  proof (cases "c s")
    case (Inl e')
    with Cons.prems [of c s] show ?thesis by simp
  next
    case (Inr s')
    with Cons.IH [of s'] Cons.prems show ?thesis by simp
  qed
qed

lemma in_clawdata_neq: "(\<And>s. c s \<noteq> Inl e) \<Longrightarrow> in_clawdata c rd \<noteq> Inl e"
  by (auto simp: in_clawdata_def split: sum.splits)

lemma hagibis_clawdata_no_assert:
  "c \<in> set (hagibis_clawdata nd) \<Longrightarrow> c s \<noteq> Inl AssertionError"
  by (auto simp: hagibis_clawdata_def lower_setitem_def upper_setitem_def num_cells_setitem_def
    bc_lower_setitem_def bc_upper_setitem_def setitem_def assign_def split: sum.splits if_splits)

lemma haishen_clawdata_no_assert:
  "c \<in> set (haishen_clawdata nd) \<Longrightarrow> c s \<noteq> Inl AssertionError"
  by (auto simp: haishen_clawdata_def lower_setitem_def upper_setitem_def num_cells_setitem_def
    bc_lower_setitem_def bc_upper_setitem_def setitem_def assign_def split: sum.splits if_splits)

lemma hagibis_setgeo_no_assert: "hagibis_setgeo p s \<noteq> Inl AssertionError"
proof (cases "geo_data s")
  case None
  then show ?thesis by (simp add: hagibis_setgeo_def)
next
  case (Some g)
  have "block cs s \<noteq> Inl AssertionError"
    if "\<And>c s. c \<in> set cs \<Longrightarrow> \<exists>s'. c s = Inr s'" for cs
  proof (rule block_neq)
    fix c s
    assume "c \<in> set cs"
    from that [OF this, of s] show "c s \<noteq> Inl AssertionError" by auto
  qed
  then show ?thesis
    unfolding hagibis_setgeo_def Some option.case
    by (auto simp: stmt_defs)
qed

lemma haishen_setgeo_no_assert: "haishen_setgeo p s \<noteq> Inl AssertionError"
proof (cases "geo_data s")
  case None
  then show ?thesis by (simp add: haishen_setgeo_def)
next
  case (Some g)
  have "block cs s \<noteq> Inl AssertionError"
    if "\<And>c s. c \<in> set cs \<Longrightarrow> \<exists>s'. c s = Inr s'" for cs
  proof (rule block_neq)
    fix c s
    assume "c \<in> set cs"
    from that [OF this, of s] show "c s \<noteq> Inl AssertionError" by auto
  qed
  then show ?thesis
    unfolding haishen_setgeo_def Some option.case
    by (auto simp: stmt_defs topoflist_def)
qed

lemma hagibis_clawdata_block_no_assert:
  "in_clawdata (block (hagibis_clawdata nd)) s \<noteq> Inl AssertionError"
  by (intro in_clawdata_neq block_neq hagibis_clawdata_no_assert)

lemma haishen_clawdata_block_no_assert:
  "in_clawdata (block (haishen_clawdata nd)) s \<noteq> Inl AssertionError"
  by (intro in_clawdata_neq block_neq haishen_clawdata_no_assert)

lemma haishen_region_no_assert: "haishen_region s \<noteq> Inl AssertionError"
  by (auto simp: haishen_region_def getitem_def regions_append_def assign_def Let_def
    split: sum.splits if_splits)

lemma hagibis_body_no_assert:
  assumes "str_lower pkg = ''geoclaw''"
  shows "hagibis_setrun mk p pkg \<noteq> Inl AssertionError"
proof -
  have "block ([in_clawdata (block (hagibis_clawdata 2)), assign (amrdata_update hagibis_amrdata)]
      @ map gauges_append hagibis_gauges @ [hagibis_setgeo p]) s \<noteq> Inl AssertionError" for s
  proof (rule block_neq)
    fix c s
    assume "c \<in> set ([in_clawdata (block (hagibis_clawdata 2)),
      assign (amrdata_update hagibis_amrdata)]
      @ map gauges_append hagibis_gauges @ [hagibis_setgeo p])"
    then show "c s \<noteq> Inl AssertionError"
      by (auto simp: gauges_append_def assign_def hagibis_setgeo_no_assert
        hagibis_clawdata_block_no_assert)
  qed
  then show ?thesis using assms by (simp add: hagibis_setrun_def del: block.simps)
qed

lemma haishen_body_no_assert:
  assumes "str_lower pkg = ''geoclaw''"
  shows "haishen_setrun mk p pkg \<noteq> Inl AssertionError"
proof -
  have "block ([in_clawdata (block (haishen_clawdata 2)), assign (amrdata_update haishen_amrdata),
      haishen_region, haishen_topo_file]
      @ map gauges_append haishen_gauges @ [haishen_setgeo p]) s \<noteq> Inl AssertionError" for s
  proof (rule block_neq)
    fix c s
    assume "c \<in> set ([in_clawdata (block (haishen_clawdata 2)),
      assign (amrdata_update haishen_amrdata), haishen_region, haishen_topo_file]
      @ map gauges_append haishen_gauges @ [haishen_setgeo p])"
    then show "c s \<noteq> Inl AssertionError"
      by (auto simp: gauges_append_def assign_def haishen_setgeo_no_assert
        haishen_region_no_assert haishen_clawdata_block_no_assert haishen_topo_file_def
        topoflist_def)
  qed
  then show ?thesis using assms by (simp add: haishen_setrun_def del: block.simps)
qed

subsection \<open>The working directory reaches the paths only\<close>

lemma block_snoc:
  "block (cs @ [c]) s = (case block cs s of Inl e \<Rightarrow> Inl e | Inr s' \<Rightarrow> c s')"
  by (induction cs arbitrary: s) (auto split: sum.splits)

lemma hagibis_setgeo_paths:
  "map_sum id without_paths (hagibis_setgeo p s) = map_sum id without_paths (hagibis_setgeo p' s)"
  by (cases "geo_data s") (simp_all add: hagibis_setgeo_def stmt_defs without_paths_def)

lemma haishen_setgeo_paths:
  "map_sum id without_paths (haishen_setgeo p s) = map_sum id without_paths (haishen_setgeo p' s)"
  by (cases "geo_data s")
     (simp_all add: haishen_setgeo_def stmt_defs without_paths_def topoflist_def)

lemma hagibis_setrun_paths:
  "map_sum id without_paths (hagibis_setrun mk p pkg) =
   map_sum id without_paths (hagibis_setrun mk p' pkg)"
proof -
  have "map_sum id without_paths (block (cs @ [hagibis_setgeo p]) s) =
        map_sum id without_paths (block (cs @ [hagibis_setgeo p']) s)" for cs s
    using hagibis_setgeo_paths [of p _ p'] by (simp add: block_snoc split: sum.splits)
  from this [of "[in_clawdata (block (hagibis_clawdata 2)), assign (amrdata_update hagibis_amrdata)]
      @ map gauges_append hagibis_gauges" "mk pkg 2"]
  show ?thesis by (simp add: hagibis_setrun_def)
qed

lemma haishen_setrun_paths:
  "map_sum id without_paths (haishen_setrun mk p pkg) =
   map_sum id without_paths (haishen_setrun mk p' pkg)"
proof -
  have "map_sum id without_paths (block (cs @ [haishen_setgeo p]) s) =
        map_sum id without_paths (block (cs @ [haishen_setgeo p']) s)" for cs s
    using haishen_setgeo_paths [of p _ p'] by (simp add: block_snoc split: sum.splits)
  from this [of "[in_clawdata (block (haishen_clawdata 2)), assign (amrdata_update haishen_amrdata),
      haishen_region, haishen_topo_file] @ map gauges_append haishen_gauges" "mk pkg 2"]
  show ?thesis by (simp add: haishen_setrun_def)
qed

section \<open>The claims\<close>

text \<open>
  C1 (amended).  In every configuration built by \<open>setrun\<close> the three refinement-ratio
  lists have one common length, which is at least \<open>amr_levels_max - 1\<close>.  The Hagibis
  module gives exactly \<open>amr_levels_max - 1 = 4\<close> ratios; the Haishen module gives 3 ratios
  for \<open>amr_levels_max = 2\<close> and returns them as they are: \<open>setrun\<close> checks no length.
\<close>

theorem ratio_lists_cover_levels:
  assumes "fresh_rundata (ClawRunData claw_pkg 2)"
    and "hagibis_setrun ClawRunData p claw_pkg = Inr rd \<or>
         haishen_setrun ClawRunData p claw_pkg = Inr rd"
  shows "ratio_lengths_cover (amrdata rd) \<and>
    (hagibis_setrun ClawRunData p claw_pkg = Inr rd \<longrightarrow> ratio_lengths_exact (amrdata rd)) \<and>
    (haishen_setrun ClawRunData p claw_pkg = Inr rd \<longrightarrow>
       amr_levels_max (amrdata rd) = 2 \<and>
       length (refinement_ratios_x (amrdata rd)) = 3 \<and>
       length (refinement_ratios_y (amrdata rd)) = 3 \<and>
       length (refinement_ratios_t (amrdata rd)) = 3)"
  using assms(2)
    hagibis_fields(9-12) [where mk = ClawRunData and pkg = claw_pkg and p = p and rd = rd, OF assms(1)]
    haishen_fields(9-12) [where mk = ClawRunData and pkg = claw_pkg and p = p and rd = rd, OF assms(1)]
  by (auto simp: ratio_lengths_cover_def ratio_lengths_exact_def)

theorem ratio_lists_cover_levels_witness:
  "fresh_rundata (blank_ClawRunData ''geoclaw'' 2) \<and>
   hagibis_setrun blank_ClawRunData example_process ''geoclaw'' = Inr (projr hagibis_example) \<and>
   ratio_lengths_cover (amrdata (projr hagibis_example)) \<and>
   ratio_lengths_exact (amrdata (projr hagibis_example)) \<and>
   haishen_setrun blank_ClawRunData example_process ''geoclaw'' = Inr (projr haishen_example) \<and>
   ratio_lengths_cover (amrdata (projr haishen_example)) \<and>
   length (refinement_ratios_x (amrdata (projr haishen_example))) = 3"
  using
    ratio_lists_cover_levels [where ClawRunData = blank_ClawRunData and claw_pkg = "''geoclaw''"
      and p = example_process and rd = "projr hagibis_example",
      OF fresh_blank disjI1 [OF hagibis_example_run]]
    ratio_lists_cover_levels [where ClawRunData = blank_ClawRunData and claw_pkg = "''geoclaw''"
      and p = example_process and rd = "projr haishen_example",
      OF fresh_blank disjI2 [OF haishen_example_run]]
    hagibis_example_run haishen_example_run fresh_blank [of "''geoclaw''"]
  by blast

text \<open>
  With the length required to be exactly \<open>amr_levels_max - 1\<close>, the property fails on
  the Haishen configuration, which \<open>setrun\<close> returns without an exception.
\<close>

theorem ratio_lists_exact_counterexample:
  "haishen_setrun blank_ClawRunData example_process ''geoclaw'' = Inr (projr haishen_example) \<and>
   \<not> ratio_lengths_exact (amrdata (projr haishen_example))"
  using haishen_example_run
  by (simp add: ratio_lengths_exact_def haishen_example_fields)

text \<open>
  C2 (amended).  Every topography entry of a configuration built by \<open>setrun\<close> and
  \<open>setgeo\<close> has \<open>1 \<le> minlevel \<le> maxlevel\<close> and the window \<open>t1 = t0 \<le> t2 = tfinal\<close>.
  In the Hagibis configuration also \<open>maxlevel \<le> amr_levels_max\<close>; the one entry of the
  Haishen configuration has \<open>maxlevel = 4\<close> with \<open>amr_levels_max = 2\<close>.
\<close>

theorem topofiles_levels_and_window:
  assumes "fresh_rundata (ClawRunData claw_pkg 2)"
    and "hagibis_setrun ClawRunData p claw_pkg = Inr rd \<or>
         haishen_setrun ClawRunData p claw_pkg = Inr rd"
  shows "topofiles (topo_data rd) \<noteq> [] \<and>
    list_all (\<lambda>t. topofile_levels_ordered t \<and> topofile_times_ok rd t \<and>
       t1 t = t0 (clawdata rd) \<and> t2 t = tfinal (clawdata rd)) (topofiles (topo_data rd)) \<and>
    (hagibis_setrun ClawRunData p claw_pkg = Inr rd \<longrightarrow>
       list_all (topofile_ok rd) (topofiles (topo_data rd))) \<and>
    (haishen_setrun ClawRunData p claw_pkg = Inr rd \<longrightarrow>
       map maxlevel (topofiles (topo_data rd)) = [4] \<and> amr_levels_max (amrdata rd) = 2)"
  using assms(2)
    hagibis_fields(5,6,9,16) [where mk = ClawRunData and pkg = claw_pkg and p = p and rd = rd, OF assms(1)]
    haishen_fields(5,6,9,16) [where mk = ClawRunData and pkg = claw_pkg and p = p and rd = rd, OF assms(1)]
  by (auto simp: topofile_ok_def topofile_levels_ordered_def topofile_times_ok_def)

theorem topofiles_levels_and_window_witness:
  "fresh_rundata (blank_ClawRunData ''geoclaw'' 2) \<and>
   hagibis_setrun blank_ClawRunData example_process ''geoclaw'' = Inr (projr hagibis_example) \<and>
   topofiles (topo_data (projr hagibis_example)) \<noteq> [] \<and>
   list_all (topofile_ok (projr hagibis_example)) (topofiles (topo_data (projr hagibis_example))) \<and>
   haishen_setrun blank_ClawRunData example_process ''geoclaw'' = Inr (projr haishen_example) \<and>
   map maxlevel (topofiles (topo_data (projr haishen_example))) = [4]"
  using
    topofiles_levels_and_window [where ClawRunData = blank_ClawRunData and claw_pkg = "''geoclaw''"
      and p = example_process and rd = "projr hagibis_example",
      OF fresh_blank disjI1 [OF hagibis_example_run]]
    topofiles_levels_and_window [where ClawRunData = blank_ClawRunData and claw_pkg = "''geoclaw''"
      and p = example_process and rd = "projr haishen_example",
      OF fresh_blank disjI2 [OF haishen_example_run]]
    hagibis_example_run haishen_example_run fresh_blank [of "''geoclaw''"]
  by blast

text \<open>
  With \<open>maxlevel \<le> amr_levels_max\<close> required, the property fails on the topography entry
  of the Haishen configuration.
\<close>

theorem topofile_maxlevel_counterexample:
  "haishen_setrun blank_ClawRunData example_process ''geoclaw'' = Inr (projr haishen_example) \<and>
   \<not> list_all (topofile_ok (projr haishen_example))
       (topofiles (topo_data (projr haishen_example)))"
  using haishen_example_run
  by (simp add: topofile_ok_def haishen_example_fields)

text \<open>
  C3 (amended).  Every friction region of a configuration built by \<open>setrun\<close> lists its
  depths in strictly descending order, from \<open>np.infty\<close> to \<open>-np.infty\<close>, and has one
  coefficient for each bracket between two consecutive depths: as many coefficients as
  finite thresholds plus one, which is the number of listed depths minus one.  A region is
  added with \<open>friction_regions.append\<close>, which checks nothing and never fails.
\<close>

theorem friction_regions_bracketed:
  assumes "fresh_rundata (ClawRunData claw_pkg 2)"
    and "hagibis_setrun ClawRunData p claw_pkg = Inr rd \<or>
         haishen_setrun ClawRunData p claw_pkg = Inr rd"
  shows "friction_regions (friction_data rd) \<noteq> [] \<and>
    list_all (\<lambda>r. friction_region_ok r \<and>
       length (friction_coefficients r) + 1 = length (friction_depths r) \<and>
       hd (friction_depths r) = PosInf \<and> last (friction_depths r) = NegInf)
      (friction_regions (friction_data rd)) \<and>
    friction_regions_append r rd =
      Inr (rd\<lparr>friction_data := (friction_data rd)\<lparr>friction_regions :=
        friction_regions (friction_data rd) @ [r]\<rparr>\<rparr>)"
  using assms(2)
    hagibis_fields(17) [where mk = ClawRunData and pkg = claw_pkg and p = p and rd = rd, OF assms(1)]
    haishen_fields(17) [where mk = ClawRunData and pkg = claw_pkg and p = p and rd = rd, OF assms(1)]
  by (auto simp: friction_region_ok_def descending_def friction_regions_append_def assign_def
    list_append_def)

theorem friction_regions_bracketed_witness:
  "fresh_rundata (blank_ClawRunData ''geoclaw'' 2) \<and>
   hagibis_setrun blank_ClawRunData example_process ''geoclaw'' = Inr (projr hagibis_example) \<and>
   friction_regions (friction_data (projr hagibis_example)) \<noteq> [] \<and>
   list_all friction_region_ok (friction_regions (friction_data (projr hagibis_example))) \<and>
   haishen_setrun blank_ClawRunData example_process ''geoclaw'' = Inr (projr haishen_example) \<and>
   list_all friction_region_ok (friction_regions (friction_data (projr haishen_example)))"
  using
    friction_regions_bracketed [where ClawRunData = blank_ClawRunData
      and claw_pkg = "''geoclaw''" and p = example_process and rd = "projr hagibis_example",
      OF fresh_blank disjI1 [OF hagibis_example_run]]
    friction_regions_bracketed [where ClawRunData = blank_ClawRunData
      and claw_pkg = "''geoclaw''" and p = example_process and rd = "projr haishen_example",
      OF fresh_blank disjI2 [OF haishen_example_run]]
    hagibis_example_run haishen_example_run fresh_blank [of "''geoclaw''"]
  by (simp add: list_all_iff)

text \<open>
  Appending a region with one threshold and one coefficient to the Hagibis configuration
  raises nothing, and the region is in the table afterwards.
\<close>

theorem friction_mismatch_counterexample:
  "\<not> isl (friction_regions_append mismatched_friction_region (projr hagibis_example)) \<and>
   \<not> friction_region_ok mismatched_friction_region \<and>
   mismatched_friction_region \<in> set (friction_regions (friction_data
     (projr (friction_regions_append mismatched_friction_region (projr hagibis_example)))))"
  by (simp add: friction_regions_append_def assign_def list_append_def
    friction_region_ok_def mismatched_friction_region_def)

text \<open>
  C4 (amended).  In every configuration built by \<open>setrun\<close>, \<open>capa_index\<close> designates an
  aux slot typed \<open>'capacity'\<close> if and only if the coordinate system is geographic: the
  geographic configuration (Haishen, \<open>coordinate_system = 2\<close>) has \<open>capa_index = 2\<close> and
  \<open>aux_type[1] = 'capacity'\<close>, the Cartesian one (Hagibis, \<open>coordinate_system = 1\<close>) has
  \<open>capa_index = 0\<close>.  Nothing in the two modules checks this: the coordinate system and
  \<open>capa_index\<close> are plain attribute assignments.
\<close>

theorem capacity_slot_iff_geographic:
  assumes "fresh_rundata (ClawRunData claw_pkg 2)"
    and "hagibis_setrun ClawRunData p claw_pkg = Inr rd \<or>
         haishen_setrun ClawRunData p claw_pkg = Inr rd"
  shows "(capacity_slot rd \<longleftrightarrow> geographic rd) \<and>
    (geographic rd \<longrightarrow> capa_index (clawdata rd) = 2 \<and>
       aux_type (amrdata rd) ! 1 = ''capacity'') \<and>
    (cartesian rd \<longrightarrow> capa_index (clawdata rd) = 0) \<and>
    (hagibis_setrun ClawRunData p claw_pkg = Inr rd \<longrightarrow> cartesian rd) \<and>
    (haishen_setrun ClawRunData p claw_pkg = Inr rd \<longrightarrow> geographic rd)"
  using assms(2)
    hagibis_fields(4,13,15) [where mk = ClawRunData and pkg = claw_pkg and p = p and rd = rd, OF assms(1)]
    haishen_fields(4,13,15) [where mk = ClawRunData and pkg = claw_pkg and p = p and rd = rd, OF assms(1)]
  by (auto simp: capacity_slot_def geographic_def cartesian_def)

theorem capacity_slot_iff_geographic_witness:
  "fresh_rundata (blank_ClawRunData ''geoclaw'' 2) \<and>
   hagibis_setrun blank_ClawRunData example_process ''geoclaw'' = Inr (projr hagibis_example) \<and>
   cartesian (projr hagibis_example) \<and> \<not> capacity_slot (projr hagibis_example) \<and>
   capa_index (clawdata (projr hagibis_example)) = 0 \<and>
   haishen_setrun blank_ClawRunData example_process ''geoclaw'' = Inr (projr haishen_example) \<and>
   geographic (projr haishen_example) \<and> capacity_slot (projr haishen_example) \<and>
   capa_index (clawdata (projr haishen_example)) = 2"
proof -
  have "\<not> geographic (projr hagibis_example)"
    by (simp add: geographic_def hagibis_example_fields)
  then show ?thesis
    using
      capacity_slot_iff_geographic [where ClawRunData = blank_ClawRunData
        and claw_pkg = "''geoclaw''" and p = example_process and rd = "projr hagibis_example",
        OF fresh_blank disjI1 [OF hagibis_example_run]]
      capacity_slot_iff_geographic [where ClawRunData = blank_ClawRunData
        and claw_pkg = "''geoclaw''" and p = example_process and rd = "projr haishen_example",
        OF fresh_blank disjI2 [OF haishen_example_run]]
      hagibis_example_run haishen_example_run fresh_blank [of "''geoclaw''"]
    by blast
qed

text \<open>
  Assigning the geographic coordinate system on the Hagibis configuration, which has no
  capacity slot, raises nothing.
\<close>

theorem geographic_without_capacity_counterexample:
  "\<not> isl (set_geographic (projr hagibis_example)) \<and>
   geographic (projr (set_geographic (projr hagibis_example))) \<and>
   \<not> capacity_slot (projr (set_geographic (projr hagibis_example)))"
proof -
  obtain g where g: "geo_data (projr hagibis_example) = Some g"
    using hagibis_example_fields(15) by (cases "geo_data (projr hagibis_example)") auto
  show ?thesis
    by (simp add: set_geographic_def assign_def geographic_def capacity_slot_def g
      hagibis_example_fields)
qed

text \<open>
  C5 (amended).  Both configurations use the explicit output-time mode
  (\<open>output_style = 2\<close>), and their lists \<open>clawdata.output_times\<close> are strictly
  increasing with every time in \<open>[t0, tfinal]\<close>.  The list is a plain attribute
  assignment: nothing in the two modules checks it against \<open>tfinal\<close>.
\<close>

theorem output_times_increasing_in_range:
  assumes "fresh_rundata (ClawRunData claw_pkg 2)"
    and "hagibis_setrun ClawRunData p claw_pkg = Inr rd \<or>
         haishen_setrun ClawRunData p claw_pkg = Inr rd"
  shows "output_style (clawdata rd) = 2 \<and> output_times (clawdata rd) \<noteq> [] \<and>
    output_times_ok (clawdata rd)"
proof -
  have a: "map (\<lambda>i. fmul (float_of_int i) 3600) [0..121] =
           map (\<lambda>i. real_of_int i * 3600) [0..121]"
    by (rule map_cong) (simp_all add: hourly_exact)
  have b: "map (\<lambda>i. fmul (float_of_int i) 1200) [0..359] =
           map (\<lambda>i. real_of_int i * 1200) [0..359]"
    by (rule map_cong) (simp_all add: twenty_minutes_exact)
  note ok = scaled_upto_ok [of 3600 121 435600] scaled_upto_ok [of 1200 359 435600]
  from assms(2) show ?thesis
  proof
    assume "hagibis_setrun ClawRunData p claw_pkg = Inr rd"
    note f = hagibis_fields(5-8) [OF assms(1) this]
    show ?thesis
      unfolding output_times_ok_def f a using ok by simp
  next
    assume "haishen_setrun ClawRunData p claw_pkg = Inr rd"
    note f = haishen_fields(5-8) [OF assms(1) this]
    show ?thesis
      unfolding output_times_ok_def f b using ok by simp
  qed
qed

theorem output_times_increasing_in_range_witness:
  "fresh_rundata (blank_ClawRunData ''geoclaw'' 2) \<and>
   hagibis_setrun blank_ClawRunData example_process ''geoclaw'' = Inr (projr hagibis_example) \<and>
   output_style (clawdata (projr hagibis_example)) = 2 \<and>
   output_times_ok (clawdata (projr hagibis_example)) \<and>
   haishen_setrun blank_ClawRunData example_process ''geoclaw'' = Inr (projr haishen_example) \<and>
   output_style (clawdata (projr haishen_example)) = 2 \<and>
   output_times_ok (clawdata (projr haishen_example))"
  using
    output_times_increasing_in_range [where ClawRunData = blank_ClawRunData
      and claw_pkg = "''geoclaw''" and p = example_process and rd = "projr hagibis_example",
      OF fresh_blank disjI1 [OF hagibis_example_run]]
    output_times_increasing_in_range [where ClawRunData = blank_ClawRunData
      and claw_pkg = "''geoclaw''" and p = example_process and rd = "projr haishen_example",
      OF fresh_blank disjI2 [OF haishen_example_run]]
    hagibis_example_run haishen_example_run fresh_blank [of "''geoclaw''"]
  by blast

text \<open>
  Assigning \<open>tfinal = 3600.0\<close> and the output times \<open>[0.0, 3600.0, 7200.0]\<close> on the
  Hagibis configuration raises nothing, and the list with \<open>7200.0 > tfinal\<close> is stored.
\<close>

theorem late_output_time_counterexample:
  "\<not> isl (set_late_output_time (projr hagibis_example)) \<and>
   output_style (clawdata (projr (set_late_output_time (projr hagibis_example)))) = 2 \<and>
   tfinal (clawdata (projr (set_late_output_time (projr hagibis_example)))) = 3600 \<and>
   output_times (clawdata (projr (set_late_output_time (projr hagibis_example)))) =
     [0, 3600, 7200] \<and>
   \<not> output_times_ok (clawdata (projr (set_late_output_time (projr hagibis_example))))"
  by (simp add: set_late_output_time_def in_clawdata_def assign_def output_times_ok_def
    hagibis_example_fields)

text \<open>
  C6.  The Hagibis \<open>setrun\<close>, called with a case variant of \<open>'geoclaw'\<close> on a fresh
  run-data object, returns without an exception a configuration with
  \<open>lower = (-1062000, -862000)\<close>, \<open>upper = (393570, 374870)\<close>, 599 by 509 cells, the
  Cartesian coordinate system and \<open>capa_index = 0\<close>.
\<close>

theorem hagibis_grid:
  assumes "fresh_rundata (ClawRunData claw_pkg 2)" and "str_lower claw_pkg = ''geoclaw''"
  shows "\<exists>rd. hagibis_setrun ClawRunData p claw_pkg = Inr rd \<and>
    lower (clawdata rd) = [- 1062000, - 862000] \<and>
    upper (clawdata rd) = [393570, 374870] \<and>
    num_cells (clawdata rd) = [599, 509] \<and>
    cartesian rd \<and> capa_index (clawdata rd) = 0"
  using hagibis_result [where mk = ClawRunData and pkg = claw_pkg and p = p, OF assms]
  by (auto simp: cartesian_def)

theorem hagibis_grid_witness:
  "fresh_rundata (blank_ClawRunData ''GeoClaw'' 2) \<and> str_lower ''GeoClaw'' = ''geoclaw'' \<and>
   (\<exists>rd. hagibis_setrun blank_ClawRunData example_process ''GeoClaw'' = Inr rd \<and>
      lower (clawdata rd) = [- 1062000, - 862000] \<and>
      upper (clawdata rd) = [393570, 374870] \<and>
      num_cells (clawdata rd) = [599, 509] \<and>
      cartesian rd \<and> capa_index (clawdata rd) = 0)"
proof -
  have l: "str_lower ''GeoClaw'' = ''geoclaw''"
    by (simp add: str_lower_def char_lower_def)
  show ?thesis
    using hagibis_grid [where ClawRunData = blank_ClawRunData and claw_pkg = "''GeoClaw''"
      and p = example_process, OF fresh_blank l] l fresh_blank [of "''GeoClaw''"]
    by blast
qed

text \<open>
  C7 (amended).  The run specification depends on \<open>claw_pkg\<close> and on the working
  directory of the process, which the modules read at import (\<open>topodir\<close>) and inside
  \<open>setgeo\<close> (\<open>storm_file\<close>).  Two invocations with the same \<open>claw_pkg\<close> in different
  working directories agree on everything except the paths they record: the topography
  file names, the \<open>force_dry\<close> file name and \<open>storm_file\<close>.
\<close>

theorem setrun_cwd_reaches_paths_only:
  "map_sum id without_paths (hagibis_setrun ClawRunData p claw_pkg) =
   map_sum id without_paths (hagibis_setrun ClawRunData p' claw_pkg) \<and>
   map_sum id without_paths (haishen_setrun ClawRunData p claw_pkg) =
   map_sum id without_paths (haishen_setrun ClawRunData p' claw_pkg)"
  using hagibis_setrun_paths [of ClawRunData p claw_pkg p']
    haishen_setrun_paths [of ClawRunData p claw_pkg p']
  by simp

text \<open>
  Run in two different working directories with the same \<open>claw_pkg\<close>, each module
  returns two different specifications.
\<close>

theorem setrun_cwd_counterexample:
  "hagibis_setrun blank_ClawRunData example_process ''geoclaw'' \<noteq>
   hagibis_setrun blank_ClawRunData other_process ''geoclaw'' \<and>
   haishen_setrun blank_ClawRunData example_process ''geoclaw'' \<noteq>
   haishen_setrun blank_ClawRunData other_process ''geoclaw''"
proof -
  obtain rd where rd: "hagibis_setrun blank_ClawRunData other_process ''geoclaw'' = Inr rd"
    using hagibis_result [where mk = blank_ClawRunData and pkg = "''geoclaw''"
      and p = other_process, OF fresh_blank lower_geoclaw] by blast
  obtain rd' where rd': "haishen_setrun blank_ClawRunData other_process ''geoclaw'' = Inr rd'"
    using haishen_result [where mk = blank_ClawRunData and pkg = "''geoclaw''"
      and p = other_process, OF fresh_blank lower_geoclaw] by blast
  have "storm_file (surge_data rd) \<noteq> storm_file (surge_data (projr hagibis_example))"
    unfolding hagibis_fields(18) [where mk = blank_ClawRunData and pkg = "''geoclaw''", OF fresh_blank rd]
      hagibis_example_fields(18)
    by (simp add: os_path_join_def example_process_def other_process_def)
  moreover have "storm_file (surge_data rd') \<noteq> storm_file (surge_data (projr haishen_example))"
    unfolding haishen_fields(18) [where mk = blank_ClawRunData and pkg = "''geoclaw''", OF fresh_blank rd']
      haishen_example_fields(18)
    by (simp add: os_path_join_def example_process_def other_process_def)
  ultimately show ?thesis
    unfolding rd rd' hagibis_example_run haishen_example_run by auto
qed

text \<open>
  C8 (amended).  Within each configuration built by \<open>setrun\<close> the gauge ids are pairwise
  distinct.  A gauge is added with \<open>gauges.append\<close>, which checks nothing and never
  fails.
\<close>

theorem gauge_ids_pairwise_distinct:
  assumes "fresh_rundata (ClawRunData claw_pkg 2)"
    and "hagibis_setrun ClawRunData p claw_pkg = Inr rd \<or>
         haishen_setrun ClawRunData p claw_pkg = Inr rd"
  shows "gauges (gaugedata rd) \<noteq> [] \<and> gauge_ids_distinct rd \<and>
    gauges_append g rd =
      Inr (rd\<lparr>gaugedata := (gaugedata rd)\<lparr>gauges := gauges (gaugedata rd) @ [g]\<rparr>\<rparr>)"
  using assms(2)
    hagibis_fields(14) [where mk = ClawRunData and pkg = claw_pkg and p = p and rd = rd, OF assms(1)]
    haishen_fields(14) [where mk = ClawRunData and pkg = claw_pkg and p = p and rd = rd, OF assms(1)]
  by (auto simp: gauge_ids_distinct_def gauges_append_def assign_def list_append_def)

theorem gauge_ids_pairwise_distinct_witness:
  "fresh_rundata (blank_ClawRunData ''geoclaw'' 2) \<and>
   hagibis_setrun blank_ClawRunData example_process ''geoclaw'' = Inr (projr hagibis_example) \<and>
   gauges (gaugedata (projr hagibis_example)) \<noteq> [] \<and>
   gauge_ids_distinct (projr hagibis_example) \<and>
   haishen_setrun blank_ClawRunData example_process ''geoclaw'' = Inr (projr haishen_example) \<and>
   gauges (gaugedata (projr haishen_example)) \<noteq> [] \<and>
   gauge_ids_distinct (projr haishen_example)"
  using
    gauge_ids_pairwise_distinct [where ClawRunData = blank_ClawRunData
      and claw_pkg = "''geoclaw''" and p = example_process and rd = "projr hagibis_example",
      OF fresh_blank disjI1 [OF hagibis_example_run]]
    gauge_ids_pairwise_distinct [where ClawRunData = blank_ClawRunData
      and claw_pkg = "''geoclaw''" and p = example_process and rd = "projr haishen_example",
      OF fresh_blank disjI2 [OF haishen_example_run]]
    hagibis_example_run haishen_example_run fresh_blank [of "''geoclaw''"]
  by blast

text \<open>
  Appending a second gauge with id 1 to the Hagibis configuration raises nothing, and the
  ids are no longer distinct.
\<close>

theorem duplicate_gauge_counterexample:
  "\<not> isl (gauges_append duplicate_gauge (projr hagibis_example)) \<and>
   \<not> gauge_ids_distinct (projr (gauges_append duplicate_gauge (projr hagibis_example)))"
  by (simp add: gauges_append_def assign_def list_append_def gauge_ids_distinct_def
    duplicate_gauge_def hagibis_example_fields)

text \<open>
  C9 (amended).  \<open>days2seconds(days)\<close> multiplies by \<open>60.0**2 = 3600.0\<close> and then by
  \<open>24.0\<close>, rounding each product to the nearest double.  For every whole number of days
  up to \<open>13 * 10^12\<close> in magnitude both products are exact and the result is exactly
  \<open>days * 86400\<close>; in particular \<open>tfinal = days2seconds(5) + 3600.0\<close> is \<open>435600.0\<close> in
  both configurations.  For other inputs the result can differ from \<open>days * 86400\<close>:
  \<open>days2seconds(0.27)\<close> is \<open>23328.000000000004\<close>, while \<open>0.27 * 86400\<close> is \<open>23328.0\<close>.
\<close>

theorem days2seconds_whole_days:
  assumes "\<bar>n\<bar> \<le> 13000000000000"
    and "fresh_rundata (ClawRunData claw_pkg 2)"
    and "hagibis_setrun ClawRunData p claw_pkg = Inr rd \<or>
         haishen_setrun ClawRunData p claw_pkg = Inr rd"
  shows "days2seconds (float_of_int n) = of_int n * 86400 \<and>
    fadd (days2seconds (float_of_int 5)) 3600 = 435600 \<and>
    tfinal (clawdata rd) = 435600"
  using assms(3) days2seconds_int [OF assms(1)] tfinal_value
    hagibis_fields(6) [where mk = ClawRunData and pkg = claw_pkg and p = p and rd = rd, OF assms(2)]
    haishen_fields(6) [where mk = ClawRunData and pkg = claw_pkg and p = p and rd = rd, OF assms(2)]
  by auto

theorem days2seconds_whole_days_witness:
  "\<bar>5 :: int\<bar> \<le> 13000000000000 \<and> fresh_rundata (blank_ClawRunData ''geoclaw'' 2) \<and>
   hagibis_setrun blank_ClawRunData example_process ''geoclaw'' = Inr (projr hagibis_example) \<and>
   haishen_setrun blank_ClawRunData example_process ''geoclaw'' = Inr (projr haishen_example) \<and>
   days2seconds (float_of_int 5) = 432000 \<and>
   tfinal (clawdata (projr hagibis_example)) = 435600 \<and>
   tfinal (clawdata (projr haishen_example)) = 435600"
proof -
  have five: "\<bar>5 :: int\<bar> \<le> 13000000000000" by simp
  show ?thesis
    using
      days2seconds_whole_days [where n = 5 and ClawRunData = blank_ClawRunData
        and claw_pkg = "''geoclaw''" and p = example_process and rd = "projr hagibis_example",
        OF five fresh_blank disjI1 [OF hagibis_example_run]]
      days2seconds_whole_days [where n = 5 and ClawRunData = blank_ClawRunData
        and claw_pkg = "''geoclaw''" and p = example_process and rd = "projr haishen_example",
        OF five fresh_blank disjI2 [OF haishen_example_run]]
      hagibis_example_run haishen_example_run fresh_blank [of "''geoclaw''"]
    by simp
qed

text \<open>
  The double \<open>0.27\<close>: the result of \<open>days2seconds\<close> is neither the double product
  \<open>0.27 * 86400.0\<close>, nor the exact product of the double with 86400, nor the exact product
  of the decimal with 86400.
\<close>

theorem days2seconds_rounding_counterexample:
  "binary64 0.27 = 607985949695017 / 2251799813685248 \<and>
   days2seconds (binary64 0.27) = 6412351813189633 / 274877906944 \<and>
   fmul (binary64 0.27) 86400 = 23328 \<and>
   days2seconds (binary64 0.27) \<noteq> fmul (binary64 0.27) 86400 \<and>
   days2seconds (binary64 0.27) \<noteq> binary64 0.27 * 86400 \<and>
   days2seconds (binary64 0.27) \<noteq> 0.27 * 86400"
proof -
  have a: "binary64 0.27 = 607985949695017 / 2251799813685248"
    by code_simp
  have b: "days2seconds (607985949695017 / 2251799813685248) =
           6412351813189633 / 274877906944"
    by code_simp
  have c: "fmul (607985949695017 / 2251799813685248) 86400 = 23328"
    by code_simp
  show ?thesis unfolding a b c by simp
qed

text \<open>
  C10.  \<open>setrun(claw_pkg)\<close> raises AssertionError if and only if \<open>claw_pkg.lower()\<close> is not
  \<open>'geoclaw'\<close>, in both modules; for every case variant of \<open>'geoclaw'\<close> the building
  proceeds, and on a fresh run-data object it returns a configuration.
\<close>

theorem setrun_asserts_geoclaw:
  "(hagibis_setrun ClawRunData p claw_pkg = Inl AssertionError \<longleftrightarrow>
      str_lower claw_pkg \<noteq> ''geoclaw'') \<and>
   (haishen_setrun ClawRunData p claw_pkg = Inl AssertionError \<longleftrightarrow>
      str_lower claw_pkg \<noteq> ''geoclaw'') \<and>
   (str_lower claw_pkg = ''geoclaw'' \<longrightarrow> fresh_rundata (ClawRunData claw_pkg 2) \<longrightarrow>
      \<not> isl (hagibis_setrun ClawRunData p claw_pkg) \<and>
      \<not> isl (haishen_setrun ClawRunData p claw_pkg))"
proof (intro conjI impI)
  show "hagibis_setrun ClawRunData p claw_pkg = Inl AssertionError \<longleftrightarrow>
      str_lower claw_pkg \<noteq> ''geoclaw''"
    using hagibis_body_no_assert [of claw_pkg ClawRunData p]
    by (auto simp: hagibis_setrun_def)
  show "haishen_setrun ClawRunData p claw_pkg = Inl AssertionError \<longleftrightarrow>
      str_lower claw_pkg \<noteq> ''geoclaw''"
    using haishen_body_no_assert [of claw_pkg ClawRunData p]
    by (auto simp: haishen_setrun_def)
next
  assume l: "str_lower claw_pkg = ''geoclaw''" and f: "fresh_rundata (ClawRunData claw_pkg 2)"
  show "\<not> isl (hagibis_setrun ClawRunData p claw_pkg)"
    using hagibis_result [where mk = ClawRunData and pkg = claw_pkg and p = p, OF f l] by auto
  show "\<not> isl (haishen_setrun ClawRunData p claw_pkg)"
    using haishen_result [where mk = ClawRunData and pkg = claw_pkg and p = p, OF f l] by auto
qed

theorem setrun_asserts_geoclaw_witness:
  "str_lower ''GEOclaw'' = ''geoclaw'' \<and> fresh_rundata (blank_ClawRunData ''GEOclaw'' 2) \<and>
   hagibis_setrun blank_ClawRunData example_process ''GEOclaw'' \<noteq> Inl AssertionError \<and>
   haishen_setrun blank_ClawRunData example_process ''GEOclaw'' \<noteq> Inl AssertionError \<and>
   \<not> isl (hagibis_setrun blank_ClawRunData example_process ''GEOclaw'') \<and>
   \<not> isl (haishen_setrun blank_ClawRunData example_process ''GEOclaw'') \<and>
   str_lower ''amrclaw'' \<noteq> ''geoclaw'' \<and>
   hagibis_setrun blank_ClawRunData example_process ''amrclaw'' = Inl AssertionError \<and>
   haishen_setrun blank_ClawRunData example_process ''amrclaw'' = Inl AssertionError"
proof -
  have l: "str_lower ''GEOclaw'' = ''geoclaw''" and n: "str_lower ''amrclaw'' \<noteq> ''geoclaw''"
    by (simp_all add: str_lower_def char_lower_def)
  show ?thesis
    using
      setrun_asserts_geoclaw [where ClawRunData = blank_ClawRunData
        and claw_pkg = "''GEOclaw''" and p = example_process]
      setrun_asserts_geoclaw [where ClawRunData = blank_ClawRunData
        and claw_pkg = "''amrclaw''" and p = example_process]
      l n fresh_blank [of "''GEOclaw''"]
    by blast
qed

end
